theory Spec2Isabelle
  imports Main "HOL-Library.Word"
begin

unbundle bit_operations_syntax

section \<open>Firmware event trace of the amdxdna driver (aie2_event_trace.c)\<close>

type_synonym u8 = "8 word"
type_synonym u16 = "16 word"
type_synonym u32 = "32 word"
type_synonym u64 = "64 word"

subsection \<open>Data model\<close>

text \<open>
  The two structures declared in the file. The reserved \<open>padding[12]\<close> of the metadata
  block is never read or written and is left out.
\<close>

record trace_event_metadata =
  tail_offset :: u64
  head_offset :: u64

record trace_event_log_data =
  counter :: u64
  payload_hi :: u16
  type :: u16
  payload_low :: u32

text \<open>
  The macros the file takes from headers that are not part of the unit. They are
  parameters of the model.
\<close>

record config =
  TRACE_EVENT_BUFFER_SIZE :: u32
  TRACE_EVENT_BUFFER_METADATA_SIZE :: u32
  MAX_ONE_TIME_LOG_INFO_LEN :: nat
  EVENT_TRACE_ENABLED :: u32
  AIE2_DEV_START :: nat

text \<open>
  A C call either returns or touches memory outside the object it was given
  (undefined behaviour in C). A loop that does not return is the value \<open>None\<close> of the
  enclosing option type.
\<close>

datatype 'a outcome = Returned 'a | Fault

subsection \<open>Ring buffer extraction: \<open>aie2_get_trace_event_content\<close>\<close>

text \<open>
  \<open>memcpy(dst + doff, src + soff, n)\<close> on byte arrays of known length. Reading or
  writing past the end of either array is a fault.
\<close>

definition memcpy :: "u8 list \<Rightarrow> nat \<Rightarrow> u8 list \<Rightarrow> nat \<Rightarrow> nat \<Rightarrow> u8 list option" where
  "memcpy dst doff src soff n =
     (if doff + n \<le> length dst \<and> soff + n \<le> length src
      then Some (take doff dst @ take n (drop soff src) @ drop (doff + n) dst)
      else None)"

text \<open>
  What the function reads and writes: the metadata block of the shared region, the
  destination buffer \<open>kern_buf\<close>, and its locals. Three fields are ghost state that the C
  code does not have: \<open>iters\<close> counts the entries into the body of the do-while loop,
  \<open>trace\<close> lists the stores to shared memory and the calls of \<open>memcpy\<close> in program order,
  and \<open>errs\<close> collects the \<open>XDNA_ERR\<close> lines.
\<close>

datatype mem_event =
    WriteHead u64
  | Memcpy nat nat nat \<comment> \<open>offset in \<open>kern_buf\<close>, offset in the log area, length\<close>

record drain_state =
  metadata :: trace_event_metadata
  kern_buf :: "u8 list"
  rd_ptr :: u32
  offset :: u32
  total_log_size :: u32
  iters :: nat
  trace :: "mem_event list"
  errs :: "string list"

text \<open>
  The do-while loop of lines 125 to 143. \<open>sysBuf\<close> is the log area of the shared region.
  The function is entered at the top of the loop body; the loop condition is tested after
  the body.
\<close>

partial_function (option) copy_loop ::
  "u32 \<Rightarrow> u32 \<Rightarrow> u8 list \<Rightarrow> drain_state \<Rightarrow> (u32 \<times> drain_state) outcome option"
where
  "copy_loop rb_size wr_ptr_wrap sysBuf s =
     (let s0 = s\<lparr>iters := Suc (iters s)\<rparr> in
      case (if wr_ptr_wrap > rd_ptr s0 then Some (wr_ptr_wrap - rd_ptr s0)
            else if wr_ptr_wrap < rd_ptr s0 then Some (rb_size - rd_ptr s0)
            else None) of
        None \<Rightarrow> Some (Returned (0, s0))
      | Some log_size \<Rightarrow>
          if log_size > rb_size then
            Some (Returned (0, s0\<lparr>errs := errs s0 @ [''log_size > rb_size'']\<rparr>))
          else
            (case memcpy (kern_buf s0) (unat (offset s0)) sysBuf (unat (rd_ptr s0))
                    (unat log_size) of
               None \<Rightarrow> Some Fault
             | Some kb \<Rightarrow>
                 (let s1 = s0\<lparr>kern_buf := kb,
                               trace := trace s0 @
                                 [Memcpy (unat (offset s0)) (unat (rd_ptr s0)) (unat log_size)],
                               offset := offset s0 + log_size,
                               total_log_size := total_log_size s0 + log_size,
                               rd_ptr := (rd_ptr s0 + log_size) mod rb_size\<rparr> in
                  if rd_ptr s1 < wr_ptr_wrap
                  then copy_loop rb_size wr_ptr_wrap sysBuf s1
                  else Some (Returned (total_log_size s1, s1)))))"

text \<open>
  The function itself. \<open>sysBuf + rb_size\<close> is the address of the metadata block, which
  is never null for an allocated region, so the null test of line 112 has no branch here.
  \<open>sysBuf\<close> is the log area and \<open>md\<close> the metadata block behind it. \<open>wr_ptr\<close> is the
  tail counter converted to 32 bits, and it is this 32-bit value that is stored back,
  widened, into \<open>head_offset\<close>.
\<close>

definition rb_size_of :: "config \<Rightarrow> u32" where
  "rb_size_of cfg = TRACE_EVENT_BUFFER_SIZE cfg - TRACE_EVENT_BUFFER_METADATA_SIZE cfg"

text \<open>Lines 118 to 120: the read pointer and the wrapped write pointer at loop entry.\<close>

definition entry_rd_ptr :: "u32 \<Rightarrow> trace_event_metadata \<Rightarrow> u32" where
  "entry_rd_ptr rb_size md = ucast (head_offset md mod ucast rb_size)"

definition entry_wr_ptr :: "trace_event_metadata \<Rightarrow> u32" where
  "entry_wr_ptr md = ucast (tail_offset md)"

definition entry_wr_ptr_wrap :: "u32 \<Rightarrow> trace_event_metadata \<Rightarrow> u32" where
  "entry_wr_ptr_wrap rb_size md = entry_wr_ptr md mod rb_size"

definition aie2_get_trace_event_content ::
  "config \<Rightarrow> u8 list \<Rightarrow> trace_event_metadata \<Rightarrow> u8 list
     \<Rightarrow> (u32 \<times> drain_state) outcome option"
where
  "aie2_get_trace_event_content cfg sysBuf md kbuf =
     (let rb_size = rb_size_of cfg;
          s = \<lparr>metadata = md, kern_buf = kbuf, rd_ptr = 0, offset = 0, total_log_size = 0,
               iters = 0, trace = [], errs = []\<rparr>
      in if rb_size = 0 then Some (Returned (0, s))
         else
           (let rd = entry_rd_ptr rb_size md;
                wr_ptr = entry_wr_ptr md;
                wr_ptr_wrap = entry_wr_ptr_wrap rb_size md;
                s = s\<lparr>rd_ptr := rd,
                       metadata := md\<lparr>head_offset := ucast wr_ptr\<rparr>,
                       trace := [WriteHead (ucast wr_ptr)]\<rparr>
            in copy_loop rb_size wr_ptr_wrap sysBuf s))"

text \<open>The length of the copy an event of the trace stands for.\<close>

primrec memcpy_len :: "mem_event \<Rightarrow> nat" where
  "memcpy_len (WriteHead v) = 0"
| "memcpy_len (Memcpy d s n) = n"

subsection \<open>Record decoding: \<open>aie2_print_trace_event_log\<close>\<close>

text \<open>
  The structures of \<open>aie2_pci.h\<close> and \<open>aie2_msg_priv.h\<close>, with the fields this file uses.
  The pointer \<open>buf\<close> to the shared region is modelled by the region's content: the log
  area, of \<open>rb_size\<close> bytes, and the metadata block behind it.
\<close>

record start_event_trace_req =
  dram_buffer_address :: u64
  dram_buffer_size :: u32

record trace_buffer =
  log_area :: "u8 list"
  trace_metadata :: trace_event_metadata

record event_trace_req_buf =
  trace_req :: start_event_trace_req
  buf :: trace_buffer
  log_ch_irq :: int
  resp_timestamp :: u64
  sys_start_time :: u64

datatype log_line =
    ERR string
  | DBG string
  | INFO u64 u16 u64 \<comment> \<open>\<open>[%llu][FW] type: 0x%04x payload:0x%016llx\<close>\<close>

text \<open>Lines 175 to 178: the line printed for one record.\<close>

definition trace_event_line :: "event_trace_req_buf \<Rightarrow> trace_event_log_data \<Rightarrow> log_line" where
  "trace_event_line trace_req_buf log_content =
     (let payload = (push_bit 32 (ucast (payload_hi log_content) :: u64)
                       OR ucast (payload_low log_content));
          fwTicks = counter log_content - resp_timestamp trace_req_buf;
          fwTicks = fwTicks div 24 + sys_start_time trace_req_buf
      in INFO fwTicks (type log_content) payload)"

text \<open>
  The loop of lines 173 to 180 over \<open>g_fwLogBuf\<close>. \<open>str\<close> and \<open>end\<close> are offsets into the
  buffer. \<open>view\<close> stands for the cast of a byte pointer to
  \<open>struct trace_event_log_data *\<close>: it reads the 16 bytes of the structure. A read past
  the end of the buffer is a fault.
\<close>

partial_function (option) decode_loop ::
  "nat \<Rightarrow> (u8 list \<Rightarrow> trace_event_log_data) \<Rightarrow> event_trace_req_buf \<Rightarrow> u8 list
     \<Rightarrow> nat \<Rightarrow> nat \<Rightarrow> log_line list \<Rightarrow> log_line list outcome option"
where
  "decode_loop stride view trace_req_buf g str end_ptr out =
     (if str < end_ptr then
        (if str + 16 \<le> length g then
           decode_loop stride view trace_req_buf g (str + stride) end_ptr
             (out @ [trace_event_line trace_req_buf (view (take 16 (drop str g)))])
         else Some Fault)
      else Some (Returned out))"

subsection \<open>Device state and session lifecycle\<close>

record pci_dev =
  device :: u16
  revision :: u8

datatype fw_msg = START_EVENT_TRACE u64 u32 | STOP_EVENT_TRACE

datatype mmio_reg = LOG_BUF_MB_IOHUB_PTR

text \<open>
  The device handle, together with the state of the kernel services the file calls:
  the live device-accessible allocations (by bus address), the registered interrupt
  lines, the number of live control structures, the messages handed to the mailbox, the
  register writes, the kernel log, and the file's global \<open>g_fwLogBuf\<close>.
\<close>

record amdxdna_dev_hdl =
  pdev :: "pci_dev option"
  dev_status :: nat
  event_trace_enabled :: u32
  event_trace_req :: "event_trace_req_buf option"
  g_fwLogBuf :: "u8 list"
  dma_live :: "u64 list"
  irq_live :: "int list"
  kmem_live :: nat
  fw_msgs :: "fw_msg list"
  mmio :: "(mmio_reg \<times> u32) list"
  klog :: "log_line list"

text \<open>
  What the kernel and the firmware answer during one call: whether \<open>kzalloc\<close> succeeds,
  the region \<open>dma_alloc_noncoherent\<close> returns (bus address and content) if any, the
  interrupt vector, the status of \<open>request_irq\<close>, the status and the timestamp of the
  firmware's answer to the start message, the clock, and the status of the stop message.
\<close>

record env =
  kzalloc_ok :: bool
  dma_alloc :: "(u64 \<times> trace_buffer) option"
  pci_irq_vector :: int
  request_irq :: int
  start_ret :: int
  current_timestamp :: u64
  ktime_get_ns :: u64
  stop_ret :: int

definition xdna_log :: "log_line \<Rightarrow> amdxdna_dev_hdl \<Rightarrow> amdxdna_dev_hdl" where
  "xdna_log l ndev = ndev\<lparr>klog := klog ndev @ [l]\<rparr>"

definition clear_event_trace_msix :: "amdxdna_dev_hdl \<Rightarrow> amdxdna_dev_hdl" where
  "clear_event_trace_msix ndev = ndev\<lparr>mmio := mmio ndev @ [(LOG_BUF_MB_IOHUB_PTR, 0)]\<rparr>"

definition aie2_is_event_trace_supported_on_dev :: "amdxdna_dev_hdl \<Rightarrow> bool \<times> amdxdna_dev_hdl" where
  "aie2_is_event_trace_supported_on_dev ndev =
     (case pdev ndev of
        None \<Rightarrow> (False, xdna_log (ERR ''pdev is null'') ndev)
      | Some p \<Rightarrow> (device p = 0x17f0 \<and> revision p \<ge> 0x10,
                   xdna_log (DBG (''Dev id: 0x%x, Dev rev: 0x%x'' @ [CHR 0x0A])) ndev))"

definition aie2_set_trace_timestamp :: "env \<Rightarrow> amdxdna_dev_hdl \<Rightarrow> amdxdna_dev_hdl option" where
  "aie2_set_trace_timestamp e ndev =
     (case event_trace_req ndev of
        None \<Rightarrow> None
      | Some r \<Rightarrow> Some (ndev\<lparr>event_trace_req :=
                     Some (r\<lparr>resp_timestamp := current_timestamp e,
                             sys_start_time := ktime_get_ns e div 1000\<rparr>)\<rparr>))"

definition aie2_event_trace_alloc :: "config \<Rightarrow> env \<Rightarrow> amdxdna_dev_hdl \<Rightarrow> int \<times> amdxdna_dev_hdl" where
  "aie2_event_trace_alloc cfg e ndev =
     (if \<not> kzalloc_ok e then (- 12, ndev)
      else
        (let ndev = ndev\<lparr>kmem_live := Suc (kmem_live ndev)\<rparr> in
         case dma_alloc e of
           None \<Rightarrow>
             (- 12, ndev\<lparr>event_trace_req := None, kmem_live := kmem_live ndev - 1\<rparr>)
         | Some (addr, region) \<Rightarrow>
             (let req_buf = \<lparr>trace_req = \<lparr>dram_buffer_address = addr,
                                           dram_buffer_size = TRACE_EVENT_BUFFER_SIZE cfg\<rparr>,
                             buf = region, log_ch_irq = pci_irq_vector e,
                             resp_timestamp = 0, sys_start_time = 0\<rparr>;
                  ndev = ndev\<lparr>dma_live := addr # dma_live ndev,
                              event_trace_req := Some req_buf\<rparr>;
                  ret = request_irq e
              in if ret \<noteq> 0 then
                   (let ndev = xdna_log (ERR ''Failed to register irq %d ret %d'') ndev;
                        ndev = ndev\<lparr>dma_live :=
                                 remove1 (dram_buffer_address (trace_req req_buf)) (dma_live ndev)\<rparr>
                    in (ret, ndev\<lparr>event_trace_req := None, kmem_live := kmem_live ndev - 1\<rparr>))
                 else
                   (0, xdna_log (DBG ''Start event trace buf addr: 0x%llx size 0x%x'')
                         (ndev\<lparr>irq_live := log_ch_irq req_buf # irq_live ndev\<rparr>)))))"

definition aie2_event_trace_free :: "amdxdna_dev_hdl \<Rightarrow> amdxdna_dev_hdl" where
  "aie2_event_trace_free ndev =
     (case event_trace_req ndev of
        None \<Rightarrow> ndev
      | Some req_buf \<Rightarrow>
          ndev\<lparr>dma_live := remove1 (dram_buffer_address (trace_req req_buf)) (dma_live ndev),
                event_trace_req := None,
                irq_live := remove1 (log_ch_irq req_buf) (irq_live ndev),
                kmem_live := kmem_live ndev - 1\<rparr>)"

text \<open>
  Modelled from the spec: \<open>aie2_start_event_trace\<close>, the mailbox sender of the start
  message, which lives in another file of the driver. By section 6 of the specification
  it hands the message to the firmware and blocks until the firmware answers or fails;
  the answer carries the device counter that seeds the timestamp anchor.
\<close>

definition aie2_start_event_trace ::
  "env \<Rightarrow> amdxdna_dev_hdl \<Rightarrow> u64 \<Rightarrow> u32 \<Rightarrow> int \<times> amdxdna_dev_hdl" where
  "aie2_start_event_trace e ndev addr sz =
     (let ndev = ndev\<lparr>fw_msgs := fw_msgs ndev @ [START_EVENT_TRACE addr sz]\<rparr> in
      if start_ret e = 0 then
        (case aie2_set_trace_timestamp e ndev of Some ndev' \<Rightarrow> (0, ndev') | None \<Rightarrow> (0, ndev))
      else (start_ret e, ndev))"

text \<open>
  Modelled from the spec: \<open>aie2_stop_event_trace\<close>, the sender of the stop message, in
  the same file of the driver as the start sender.
\<close>

definition aie2_stop_event_trace :: "env \<Rightarrow> amdxdna_dev_hdl \<Rightarrow> int \<times> amdxdna_dev_hdl" where
  "aie2_stop_event_trace e ndev =
     (stop_ret e, ndev\<lparr>fw_msgs := fw_msgs ndev @ [STOP_EVENT_TRACE]\<rparr>)"

definition aie2_start_event_trace_send ::
  "config \<Rightarrow> env \<Rightarrow> amdxdna_dev_hdl \<Rightarrow> int \<times> amdxdna_dev_hdl" where
  "aie2_start_event_trace_send cfg e ndev =
     (case aie2_event_trace_alloc cfg e ndev of
        (ret, ndev) \<Rightarrow>
          if ret = 0 then
            (case event_trace_req ndev of
               Some trace_req_buf \<Rightarrow>
                 aie2_start_event_trace e ndev
                   (dram_buffer_address (trace_req trace_req_buf))
                   (dram_buffer_size (trace_req trace_req_buf))
             | None \<Rightarrow> (ret, ndev))
          else (ret, xdna_log (ERR ''Failed to allocate and register event trace'') ndev))"

definition aie2_stop_event_trace_send :: "env \<Rightarrow> amdxdna_dev_hdl \<Rightarrow> int \<times> amdxdna_dev_hdl" where
  "aie2_stop_event_trace_send e ndev =
     (if event_trace_req ndev = None
      then (0, xdna_log (DBG ''Event tracing is not started'') ndev)
      else aie2_stop_event_trace e ndev)"

subsection \<open>Enable/disable state machine: \<open>aie2_assign_event_trace_state\<close>\<close>

text \<open>
  What a C call hands back to its caller: nothing when the function is declared
  \<open>void\<close>, a status otherwise.
\<close>

datatype c_ret = Void | Status int

text \<open>A call reports failure when it hands back a non-zero status.\<close>

definition returns_failure :: "c_ret \<Rightarrow> bool" where
  "returns_failure r = (case r of Void \<Rightarrow> False | Status err \<Rightarrow> err \<noteq> 0)"

text \<open>
  The handle \<open>ndev\<close> is the state itself, so the test for a null handle of line 38 has
  no branch here. The function is declared \<open>void\<close>.
\<close>

definition aie2_assign_event_trace_state ::
  "config \<Rightarrow> env \<Rightarrow> amdxdna_dev_hdl \<Rightarrow> u32 \<Rightarrow> c_ret \<times> amdxdna_dev_hdl" where
  "aie2_assign_event_trace_state cfg e ndev state =
     (case aie2_is_event_trace_supported_on_dev ndev of
        (supported, ndev) \<Rightarrow>
          if \<not> supported then
            (Void, xdna_log (ERR ''Event trace is not supported on this device'') ndev)
          else if event_trace_enabled ndev = state then
            (Void, xdna_log (DBG ''Event trace state is already %d'') ndev)
          else
            (let ndev = ndev\<lparr>event_trace_enabled := state\<rparr>;
                 ndev =
                   (if state \<noteq> 0 then
                      (case aie2_start_event_trace_send cfg e ndev of
                         (ret, ndev) \<Rightarrow>
                           if ret \<noteq> 0 then
                             aie2_event_trace_free
                               (xdna_log (ERR ''Send start event trace failed, ret %d'') ndev)
                           else ndev)
                    else if dev_status ndev \<ge> AIE2_DEV_START cfg then
                      aie2_event_trace_free (snd (aie2_stop_event_trace_send e ndev))
                    else xdna_log (DBG ''Event trace is not started'') ndev);
                 ndev = clear_event_trace_msix ndev
             in (Void, xdna_log (DBG ''Event trace state: %d'') ndev)))"

subsection \<open>Interrupt handler and decoder\<close>

text \<open>
  Line 170 stores a zero at index \<open>log_size\<close> of \<open>g_fwLogBuf\<close>; an index past the
  array is a fault.
\<close>

definition null_terminate :: "u8 list \<Rightarrow> u32 \<Rightarrow> u8 list option" where
  "null_terminate g log_size =
     (if unat log_size < length g then Some (g[unat log_size := 0]) else None)"

definition aie2_print_trace_event_log ::
  "config \<Rightarrow> (u8 list \<Rightarrow> trace_event_log_data) \<Rightarrow> amdxdna_dev_hdl
     \<Rightarrow> amdxdna_dev_hdl outcome option" where
  "aie2_print_trace_event_log cfg view ndev =
     (case event_trace_req ndev of
        None \<Rightarrow> Some (Returned (xdna_log (ERR ''FW resp trace buffer is null!'') ndev))
      | Some trace_req_buf \<Rightarrow>
          (case aie2_get_trace_event_content cfg (log_area (buf trace_req_buf))
                  (trace_metadata (buf trace_req_buf)) (g_fwLogBuf ndev) of
             None \<Rightarrow> None
           | Some Fault \<Rightarrow> Some Fault
           | Some (Returned (log_size, s)) \<Rightarrow>
               (let trace_req_buf =
                      trace_req_buf\<lparr>buf := (buf trace_req_buf)\<lparr>trace_metadata := metadata s\<rparr>\<rparr>;
                    ndev = ndev\<lparr>event_trace_req := Some trace_req_buf,
                                g_fwLogBuf := kern_buf s,
                                klog := klog ndev @ map ERR (errs s) @
                                          [DBG ''FW log size in bytes %u'']\<rparr>
                in if log_size \<noteq> 0 then
                     (case null_terminate (g_fwLogBuf ndev) log_size of
                        None \<Rightarrow> Some Fault
                      | Some g \<Rightarrow>
                          (case decode_loop (MAX_ONE_TIME_LOG_INFO_LEN cfg) view trace_req_buf
                                  g 0 (unat log_size) [] of
                             None \<Rightarrow> None
                           | Some Fault \<Rightarrow> Some Fault
                           | Some (Returned ls) \<Rightarrow>
                               Some (Returned (ndev\<lparr>g_fwLogBuf := g,
                                                      klog := klog ndev @ ls\<rparr>))))
                   else Some (Returned ndev))))"

text \<open>
  The handler of lines 184 to 199, without the tracepoint and the constant result
  \<open>IRQ_HANDLED\<close>.
\<close>

definition log_buffer_irq_handler ::
  "config \<Rightarrow> (u8 list \<Rightarrow> trace_event_log_data) \<Rightarrow> amdxdna_dev_hdl
     \<Rightarrow> amdxdna_dev_hdl outcome option" where
  "log_buffer_irq_handler cfg view ndev =
     (let ndev = clear_event_trace_msix ndev in
      if event_trace_enabled ndev = EVENT_TRACE_ENABLED cfg
      then aie2_print_trace_event_log cfg view ndev
      else Some (Returned ndev))"

subsection \<open>Concrete configurations\<close>

text \<open>Two configurations with a metadata block of 64 bytes and log areas of 1000 and 100 bytes.\<close>

definition cfg_1000 :: config where
  "cfg_1000 = \<lparr>TRACE_EVENT_BUFFER_SIZE = 1064, TRACE_EVENT_BUFFER_METADATA_SIZE = 64,
     MAX_ONE_TIME_LOG_INFO_LEN = 16, EVENT_TRACE_ENABLED = 1, AIE2_DEV_START = 2\<rparr>"

definition cfg_100 :: config where
  "cfg_100 = \<lparr>TRACE_EVENT_BUFFER_SIZE = 164, TRACE_EVENT_BUFFER_METADATA_SIZE = 64,
     MAX_ONE_TIME_LOG_INFO_LEN = 16, EVENT_TRACE_ENABLED = 1, AIE2_DEV_START = 2\<rparr>"

text \<open>
  A device that passes the capability gate, with tracing disabled and no session, and
  the same device with a revision below \<open>0x10\<close>.
\<close>

definition dev_supported :: amdxdna_dev_hdl where
  "dev_supported =
     \<lparr>pdev = Some \<lparr>device = 0x17f0, revision = 0x10\<rparr>, dev_status = 2,
      event_trace_enabled = 0, event_trace_req = None, g_fwLogBuf = replicate 164 0,
      dma_live = [], irq_live = [], kmem_live = 0, fw_msgs = [], mmio = [], klog = []\<rparr>"

definition dev_unsupported :: amdxdna_dev_hdl where
  "dev_unsupported = dev_supported\<lparr>pdev := Some \<lparr>device = 0x17f0, revision = 0x0f\<rparr>\<rparr>"

text \<open>
  The kernel grants every allocation and the interrupt line; the firmware fails the
  start message with \<open>-ETIME\<close>. In the second environment the firmware accepts it.
\<close>

definition env_start_fails :: env where
  "env_start_fails =
     \<lparr>kzalloc_ok = True,
      dma_alloc = Some (0x1000, \<lparr>log_area = replicate 100 0,
                                trace_metadata = \<lparr>tail_offset = 0, head_offset = 0\<rparr>\<rparr>),
      pci_irq_vector = 5, request_irq = 0, start_ret = - 62, current_timestamp = 0,
      ktime_get_ns = 0, stop_ret = 0\<rparr>"

definition env_start_ok :: env where
  "env_start_ok = env_start_fails\<lparr>start_ret := 0\<rparr>"



definition anchor_1000_5000 :: event_trace_req_buf where
  "anchor_1000_5000 =
     \<lparr>trace_req = \<lparr>dram_buffer_address = 0x1000, dram_buffer_size = 164\<rparr>,
      buf = \<lparr>log_area = replicate 100 0,
             trace_metadata = \<lparr>tail_offset = 0, head_offset = 0\<rparr>\<rparr>,
      log_ch_irq = 5, resp_timestamp = 1000, sys_start_time = 5000\<rparr>"


text \<open>The supported device while a session is active.\<close>

definition dev_tracing :: amdxdna_dev_hdl where
  "dev_tracing =
     dev_supported\<lparr>event_trace_enabled := 1, event_trace_req := Some anchor_1000_5000,
                    dma_live := [0x1000], irq_live := [5], kmem_live := 1\<rparr>"

section \<open>Properties of the ring buffer extraction\<close>

subsection \<open>Conversions between the 64-bit counters and the 32-bit locals\<close>

lemma unat_u32_bound: "unat (x::u32) < 4294967296"
  using unsigned_less [of x, where ?'a = nat] by simp

lemma unat_ucast_up: "unat (ucast (rb::u32) :: u64) = unat rb"
proof -
  have "unat rb < 2 ^ 64" using unat_u32_bound [of rb] by simp
  then show ?thesis by (simp add: unsigned_ucast_eq take_bit_nat_eq_self)
qed

lemma unat_ucast_down: "unat (ucast (x::u64) :: u32) = unat x mod 4294967296"
  by (simp add: unsigned_ucast_eq take_bit_eq_mod)

lemma unat_entry_rd_ptr:
  assumes "rb \<noteq> 0"
  shows "unat (entry_rd_ptr rb md) = unat (head_offset md) mod unat rb"
proof -
  have m: "unat (head_offset md mod (ucast rb :: u64)) = unat (head_offset md) mod unat rb"
    by (simp add: unat_mod unat_ucast_up)
  have "0 < unat rb" using assms by (simp add: unat_gt_0)
  then have "unat (head_offset md) mod unat rb < unat rb" by simp
  then have "unat (head_offset md) mod unat rb < 4294967296"
    using unat_u32_bound [of rb] by linarith
  then show ?thesis by (simp add: entry_rd_ptr_def unat_ucast_down m)
qed

lemma entry_rd_ptr_less: "rb \<noteq> 0 \<Longrightarrow> entry_rd_ptr rb md < rb"
  by (simp add: word_less_nat_alt unat_entry_rd_ptr unat_gt_0)

lemma entry_wr_ptr_wrap_less: "rb \<noteq> 0 \<Longrightarrow> entry_wr_ptr_wrap rb md < rb"
  by (simp add: entry_wr_ptr_wrap_def word_gt_0 word_mod_less_divisor)

lemma unat_entry_wr_ptr_wrap:
  "unat (entry_wr_ptr_wrap rb md) = (unat (tail_offset md) mod 4294967296) mod unat rb"
  by (simp add: entry_wr_ptr_wrap_def entry_wr_ptr_def unat_mod unat_ucast_down)

subsection \<open>The copy loop, case by case\<close>

lemma drain_unfold:
  "rb_size_of cfg \<noteq> 0 \<Longrightarrow>
     aie2_get_trace_event_content cfg sysBuf md kbuf =
       copy_loop (rb_size_of cfg) (entry_wr_ptr_wrap (rb_size_of cfg) md) sysBuf
         \<lparr>metadata = md\<lparr>head_offset := ucast (entry_wr_ptr md)\<rparr>, kern_buf = kbuf,
          rd_ptr = entry_rd_ptr (rb_size_of cfg) md, offset = 0, total_log_size = 0,
          iters = 0, trace = [WriteHead (ucast (entry_wr_ptr md))], errs = []\<rparr>"
  by (simp add: aie2_get_trace_event_content_def Let_def)

lemma seg_le: "(rd::u32) < wrap \<Longrightarrow> wrap < rb \<Longrightarrow> \<not> (wrap - rd > rb)"
  by unat_arith

lemma seg_le2: "(wrap::u32) < rd \<Longrightarrow> rd < rb \<Longrightarrow> \<not> (rb - rd > rb)"
  by unat_arith

lemma unat_seg: "(rd::u32) < wrap \<Longrightarrow> unat (wrap - rd) = unat wrap - unat rd"
  by unat_arith

lemma copy_loop_equal:
  "rd_ptr s = wrap \<Longrightarrow>
     copy_loop rb wrap sysBuf s = Some (Returned (0, s\<lparr>iters := Suc (iters s)\<rparr>))"
  by (subst copy_loop.simps) (simp add: Let_def)

lemma copy_loop_nowrap:
  assumes "rd_ptr s < wrap" and "wrap < rb"
    and "unat (offset s) + (unat wrap - unat (rd_ptr s)) \<le> length (kern_buf s)"
    and "unat wrap \<le> length sysBuf"
  shows "copy_loop rb wrap sysBuf s =
     Some (Returned (total_log_size s + (wrap - rd_ptr s),
       s\<lparr>iters := Suc (iters s),
         kern_buf := take (unat (offset s)) (kern_buf s) @
            take (unat wrap - unat (rd_ptr s)) (drop (unat (rd_ptr s)) sysBuf) @
            drop (unat (offset s) + (unat wrap - unat (rd_ptr s))) (kern_buf s),
         trace := trace s @
            [Memcpy (unat (offset s)) (unat (rd_ptr s)) (unat wrap - unat (rd_ptr s))],
         offset := offset s + (wrap - rd_ptr s),
         total_log_size := total_log_size s + (wrap - rd_ptr s),
         rd_ptr := wrap\<rparr>))"
proof -
  have a: "\<not> (wrap - rd_ptr s > rb)" using assms(1,2) by (rule seg_le)
  have b: "unat (wrap - rd_ptr s) = unat wrap - unat (rd_ptr s)" using assms(1) by (rule unat_seg)
  have c: "unat (rd_ptr s) + (unat wrap - unat (rd_ptr s)) \<le> length sysBuf"
    using assms(1,4) by unat_arith
  have d: "wrap mod rb = wrap" using assms(2) by (simp add: mod_word_less)
  show ?thesis
    by (subst copy_loop.simps) (simp add: Let_def memcpy_def assms(1,3) a b c d)
qed

lemma copy_loop_to_end:
  assumes "0 < rd_ptr s" and "rd_ptr s < rb"
    and "unat (offset s) + (unat rb - unat (rd_ptr s)) \<le> length (kern_buf s)"
    and "unat rb \<le> length sysBuf"
  shows "copy_loop rb 0 sysBuf s =
     Some (Returned (total_log_size s + (rb - rd_ptr s),
       s\<lparr>iters := Suc (iters s),
         kern_buf := take (unat (offset s)) (kern_buf s) @
            take (unat rb - unat (rd_ptr s)) (drop (unat (rd_ptr s)) sysBuf) @
            drop (unat (offset s) + (unat rb - unat (rd_ptr s))) (kern_buf s),
         trace := trace s @
            [Memcpy (unat (offset s)) (unat (rd_ptr s)) (unat rb - unat (rd_ptr s))],
         offset := offset s + (rb - rd_ptr s),
         total_log_size := total_log_size s + (rb - rd_ptr s),
         rd_ptr := 0\<rparr>))"
proof -
  have a: "\<not> (rb - rd_ptr s > rb)" using assms(1,2) by (rule seg_le2)
  have b: "unat (rb - rd_ptr s) = unat rb - unat (rd_ptr s)" using assms(2) by (rule unat_seg)
  have c: "unat (rd_ptr s) + (unat rb - unat (rd_ptr s)) \<le> length sysBuf"
    using assms(2,4) by unat_arith
  show ?thesis
    by (subst copy_loop.simps) (simp add: Let_def memcpy_def assms(1,3) a b c)
qed

lemma copy_loop_wrap:
  assumes "wrap < rd_ptr s" and "rd_ptr s < rb" and "0 < wrap"
    and "offset s = 0"
    and "unat rb \<le> length (kern_buf s)"
    and "unat rb \<le> length sysBuf"
  shows "copy_loop rb wrap sysBuf s =
     Some (Returned (total_log_size s + (rb - rd_ptr s) + wrap,
       s\<lparr>iters := Suc (Suc (iters s)),
         kern_buf := take (unat rb - unat (rd_ptr s)) (drop (unat (rd_ptr s)) sysBuf) @
            take (unat wrap) sysBuf @
            drop (unat rb - unat (rd_ptr s) + unat wrap) (kern_buf s),
         trace := trace s @
            [Memcpy 0 (unat (rd_ptr s)) (unat rb - unat (rd_ptr s)),
             Memcpy (unat rb - unat (rd_ptr s)) 0 (unat wrap)],
         offset := rb - rd_ptr s + wrap,
         total_log_size := total_log_size s + (rb - rd_ptr s) + wrap,
         rd_ptr := wrap\<rparr>))"
proof -
  let ?n = "unat rb - unat (rd_ptr s)"
  let ?kb = "take ?n (drop (unat (rd_ptr s)) sysBuf) @ drop ?n (kern_buf s)"
  let ?s1 = "s\<lparr>iters := Suc (iters s), kern_buf := ?kb,
         trace := trace s @ [Memcpy 0 (unat (rd_ptr s)) ?n],
         offset := rb - rd_ptr s,
         total_log_size := total_log_size s + (rb - rd_ptr s),
         rd_ptr := 0\<rparr>"
  have a: "\<not> (rb - rd_ptr s > rb)" using assms(1,2) by (rule seg_le2)
  have b: "unat (rb - rd_ptr s) = ?n" using assms(2) by (rule unat_seg)
  have c: "unat (rd_ptr s) + ?n \<le> length sysBuf"
    using assms(2,6) by unat_arith
  have c': "?n \<le> length (kern_buf s)" using assms(5) by simp
  have e: "\<not> (wrap > rd_ptr s)" using assms(1) by simp
  have first: "copy_loop rb wrap sysBuf s = copy_loop rb wrap sysBuf ?s1"
    by (subst copy_loop.simps) (simp add: Let_def memcpy_def assms(1,3,4) a b c c' e)
  have lt: "unat wrap < unat (rd_ptr s)" "unat (rd_ptr s) < unat rb"
    using assms(1,2) by (simp_all add: word_less_nat_alt)
  have len: "length ?kb = length (kern_buf s)" using c c' by simp
  have f: "rd_ptr ?s1 < wrap" using assms(3) by simp
  have g: "wrap < rb" using assms(1,2) by simp
  have h: "unat (offset ?s1) + (unat wrap - unat (rd_ptr ?s1)) \<le> length (kern_buf ?s1)"
    using lt assms(5) len by (simp add: b)
  have i: "unat wrap \<le> length sysBuf" using lt assms(6) by simp
  have tk: "take ?n ?kb = take ?n (drop (unat (rd_ptr s)) sysBuf)" using c by simp
  have dr: "drop (unat wrap + ?n) ?kb = drop (unat wrap + ?n) (kern_buf s)" using c by simp
  show ?thesis
    unfolding first
    by (subst copy_loop_nowrap [OF f g h i]) (simp add: b tk dr add.commute del: take_append drop_append)
qed

lemma drain_cases:
  fixes cfg :: config and md :: trace_event_metadata and sysBuf kbuf :: "u8 list"
  assumes nz: "rb_size_of cfg \<noteq> 0"
    and ls: "unat (rb_size_of cfg) \<le> length sysBuf"
    and lk: "unat (rb_size_of cfg) \<le> length kbuf"
  defines "rb \<equiv> rb_size_of cfg"
  defines "rd \<equiv> entry_rd_ptr (rb_size_of cfg) md"
  defines "w \<equiv> entry_wr_ptr_wrap (rb_size_of cfg) md"
  defines "s0 \<equiv> \<lparr>metadata = md\<lparr>head_offset := ucast (entry_wr_ptr md)\<rparr>, kern_buf = kbuf,
          rd_ptr = rd, offset = 0, total_log_size = 0,
          iters = 0, trace = [WriteHead (ucast (entry_wr_ptr md))], errs = []\<rparr>"
  shows "rd = w \<Longrightarrow> aie2_get_trace_event_content cfg sysBuf md kbuf =
           Some (Returned (0, s0\<lparr>iters := 1\<rparr>))"
    and "rd < w \<Longrightarrow> aie2_get_trace_event_content cfg sysBuf md kbuf =
           Some (Returned (w - rd,
             s0\<lparr>iters := 1,
                kern_buf := take (unat w - unat rd) (drop (unat rd) sysBuf) @
                              drop (unat w - unat rd) kbuf,
                trace := [WriteHead (ucast (entry_wr_ptr md)),
                          Memcpy 0 (unat rd) (unat w - unat rd)],
                offset := w - rd, total_log_size := w - rd, rd_ptr := w\<rparr>))"
    and "w = 0 \<Longrightarrow> 0 < rd \<Longrightarrow> aie2_get_trace_event_content cfg sysBuf md kbuf =
           Some (Returned (rb - rd,
             s0\<lparr>iters := 1,
                kern_buf := take (unat rb - unat rd) (drop (unat rd) sysBuf) @
                              drop (unat rb - unat rd) kbuf,
                trace := [WriteHead (ucast (entry_wr_ptr md)),
                          Memcpy 0 (unat rd) (unat rb - unat rd)],
                offset := rb - rd, total_log_size := rb - rd, rd_ptr := 0\<rparr>))"
    and "0 < w \<Longrightarrow> w < rd \<Longrightarrow> aie2_get_trace_event_content cfg sysBuf md kbuf =
           Some (Returned (rb - rd + w,
             s0\<lparr>iters := 2,
                kern_buf := take (unat rb - unat rd) (drop (unat rd) sysBuf) @
                              take (unat w) sysBuf @
                              drop (unat rb - unat rd + unat w) kbuf,
                trace := [WriteHead (ucast (entry_wr_ptr md)),
                          Memcpy 0 (unat rd) (unat rb - unat rd),
                          Memcpy (unat rb - unat rd) 0 (unat w)],
                offset := rb - rd + w, total_log_size := rb - rd + w, rd_ptr := w\<rparr>))"
proof -
  have u: "aie2_get_trace_event_content cfg sysBuf md kbuf = copy_loop rb w sysBuf s0"
    unfolding rb_def w_def s0_def rd_def by (rule drain_unfold [OF nz])
  have rdl: "rd < rb" unfolding rd_def rb_def by (rule entry_rd_ptr_less [OF nz])
  have wl: "w < rb" unfolding w_def rb_def by (rule entry_wr_ptr_wrap_less [OF nz])
  have f: "rd_ptr s0 = rd" "offset s0 = 0" "kern_buf s0 = kbuf" by (simp_all add: s0_def)
  have lk': "unat rb \<le> length (kern_buf s0)" and ls': "unat rb \<le> length sysBuf"
    using lk ls by (simp_all add: rb_def f)
  have wn: "unat w < unat rb" using wl by (simp add: word_less_nat_alt)
  have rn: "unat rd < unat rb" using rdl by (simp add: word_less_nat_alt)
  {
    assume "rd = w"
    then show "aie2_get_trace_event_content cfg sysBuf md kbuf =
           Some (Returned (0, s0\<lparr>iters := 1\<rparr>))"
      unfolding u by (subst copy_loop_equal) (simp_all add: s0_def)
  next
    assume a: "rd < w"
    have a': "rd_ptr s0 < w" using a by (simp add: f)
    have b: "unat (offset s0) + (unat w - unat (rd_ptr s0)) \<le> length (kern_buf s0)"
      using wn lk' by (simp add: f)
    have c: "unat w \<le> length sysBuf" using wn ls' by simp
    show "aie2_get_trace_event_content cfg sysBuf md kbuf =
           Some (Returned (w - rd,
             s0\<lparr>iters := 1,
                kern_buf := take (unat w - unat rd) (drop (unat rd) sysBuf) @
                              drop (unat w - unat rd) kbuf,
                trace := [WriteHead (ucast (entry_wr_ptr md)),
                          Memcpy 0 (unat rd) (unat w - unat rd)],
                offset := w - rd, total_log_size := w - rd, rd_ptr := w\<rparr>))"
      unfolding u by (subst copy_loop_nowrap [OF a' wl b c]) (simp add: s0_def)
  next
    assume a: "w = 0" "0 < rd"
    have a': "0 < rd_ptr s0" using a by (simp add: f)
    have rdl': "rd_ptr s0 < rb" using rdl by (simp add: f)
    have b: "unat (offset s0) + (unat rb - unat (rd_ptr s0)) \<le> length (kern_buf s0)"
      using lk' by (simp add: f)
    show "aie2_get_trace_event_content cfg sysBuf md kbuf =
           Some (Returned (rb - rd,
             s0\<lparr>iters := 1,
                kern_buf := take (unat rb - unat rd) (drop (unat rd) sysBuf) @
                              drop (unat rb - unat rd) kbuf,
                trace := [WriteHead (ucast (entry_wr_ptr md)),
                          Memcpy 0 (unat rd) (unat rb - unat rd)],
                offset := rb - rd, total_log_size := rb - rd, rd_ptr := 0\<rparr>))"
      unfolding u a(1) by (subst copy_loop_to_end [OF a' rdl' b ls']) (simp add: s0_def)
  next
    assume a: "0 < w" "w < rd"
    have a': "w < rd_ptr s0" using a by (simp add: f)
    have rdl': "rd_ptr s0 < rb" using rdl by (simp add: f)
    show "aie2_get_trace_event_content cfg sysBuf md kbuf =
           Some (Returned (rb - rd + w,
             s0\<lparr>iters := 2,
                kern_buf := take (unat rb - unat rd) (drop (unat rd) sysBuf) @
                              take (unat w) sysBuf @
                              drop (unat rb - unat rd + unat w) kbuf,
                trace := [WriteHead (ucast (entry_wr_ptr md)),
                          Memcpy 0 (unat rd) (unat rb - unat rd),
                          Memcpy (unat rb - unat rd) 0 (unat w)],
                offset := rb - rd + w, total_log_size := rb - rd + w, rd_ptr := w\<rparr>))"
      unfolding u by (subst copy_loop_wrap [OF a' rdl' a(1) f(2) lk' ls']) (simp add: s0_def)
  }
qed


lemma ptr_cases:
  fixes rd w :: u32
  shows "rd = w \<or> rd < w \<or> (w = 0 \<and> 0 < rd) \<or> (0 < w \<and> w < rd)"
  by (metis word_gt_0 not_less_iff_gr_or_eq)

lemma drain_summary:
  fixes cfg :: config and md :: trace_event_metadata and sysBuf kbuf :: "u8 list"
  assumes nz: "rb_size_of cfg \<noteq> 0"
    and ls: "unat (rb_size_of cfg) \<le> length sysBuf"
    and lk: "unat (rb_size_of cfg) \<le> length kbuf"
  shows "\<exists>v s. aie2_get_trace_event_content cfg sysBuf md kbuf = Some (Returned (v, s)) \<and>
           errs s = [] \<and> length (kern_buf s) = length kbuf \<and>
           (\<forall>ev \<in> set (trace s). memcpy_len ev < unat (rb_size_of cfg)) \<and>
           unat v = sum_list (map memcpy_len (trace s)) \<and>
           unat v < unat (rb_size_of cfg)"
proof -
  note c = drain_cases [OF assms, of md]
  let ?rb = "rb_size_of cfg"
  let ?rd = "entry_rd_ptr ?rb md" and ?w = "entry_wr_ptr_wrap ?rb md"
  have rdl: "?rd < ?rb" by (rule entry_rd_ptr_less [OF nz])
  have wl: "?w < ?rb" by (rule entry_wr_ptr_wrap_less [OF nz])
  have wn: "unat ?w < unat ?rb" using wl by (simp add: word_less_nat_alt)
  have rn: "unat ?rd < unat ?rb" using rdl by (simp add: word_less_nat_alt)
  have pos: "0 < unat ?rb" using nz by (simp add: unat_gt_0)
  consider (equal) "?rd = ?w" | (nowrap) "?rd < ?w" | (to_end) "?w = 0" "0 < ?rd"
    | (wrap) "0 < ?w" "?w < ?rd"
    using ptr_cases [of ?rd ?w] by blast
  then show ?thesis
  proof cases
    case equal
    show ?thesis using pos by (simp add: c(1) [OF equal])
  next
    case nowrap
    have u: "unat (?w - ?rd) = unat ?w - unat ?rd" using nowrap by (rule unat_seg)
    have n: "unat ?rd < unat ?w" using nowrap by (simp add: word_less_nat_alt)
    show ?thesis using n wn ls lk by (simp add: c(2) [OF nowrap] u)
  next
    case to_end
    have u: "unat (?rb - ?rd) = unat ?rb - unat ?rd" using rdl by (rule unat_seg)
    have n: "0 < unat ?rd" using to_end(2) by (simp add: word_less_nat_alt)
    show ?thesis using n rn ls lk by (simp add: c(3) [OF to_end] u)
  next
    case wrap
    have u: "unat (?rb - ?rd) = unat ?rb - unat ?rd" using rdl by (rule unat_seg)
    have n: "unat ?w < unat ?rd" "0 < unat ?w" using wrap by (simp_all add: word_less_nat_alt)
    have v: "unat (?rb - ?rd + ?w) = unat ?rb - unat ?rd + unat ?w"
      using n rn u unat_u32_bound [of ?rb] by (simp add: unat_word_ariths)
    show ?thesis using n rn ls lk by (simp add: c(4) [OF wrap] u v)
  qed
qed


subsection \<open>The vectors of the specification\<close>

text \<open>
  Claim C1. With a log area of 1000 bytes, \<open>head_offset = 10\<close> and \<open>tail_offset = 50\<close>, the
  drain makes one copy, of the 40 bytes at offsets 10 to 50 of the log area, to the front
  of \<open>kern_buf\<close>, returns 40 and leaves \<open>head_offset = 50\<close>. With a log area of 100 bytes,
  \<open>head_offset = 90\<close> and \<open>tail_offset = 120\<close>, it makes two copies, first the 10 bytes at
  offsets 90 to 100 and then the 20 bytes at offsets 0 to 20, placed one behind the other
  in \<open>kern_buf\<close>, returns 30 and leaves \<open>head_offset = 120\<close>.
\<close>

theorem drain_spec_vectors:
  "(rb_size_of cfg = 1000 \<longrightarrow> length sysBuf = 1000 \<longrightarrow> 1000 \<le> length kbuf \<longrightarrow>
      aie2_get_trace_event_content cfg sysBuf \<lparr>tail_offset = 50, head_offset = 10\<rparr> kbuf =
        Some (Returned (40,
          \<lparr>metadata = \<lparr>tail_offset = 50, head_offset = 50\<rparr>,
           kern_buf = take 40 (drop 10 sysBuf) @ drop 40 kbuf,
           rd_ptr = 50, offset = 40, total_log_size = 40, iters = 1,
           trace = [WriteHead 50, Memcpy 0 10 40], errs = []\<rparr>))) \<and>
   (rb_size_of cfg' = 100 \<longrightarrow> length sysBuf' = 100 \<longrightarrow> 100 \<le> length kbuf' \<longrightarrow>
      aie2_get_trace_event_content cfg' sysBuf' \<lparr>tail_offset = 120, head_offset = 90\<rparr> kbuf' =
        Some (Returned (30,
          \<lparr>metadata = \<lparr>tail_offset = 120, head_offset = 120\<rparr>,
           kern_buf = take 10 (drop 90 sysBuf') @ take 20 sysBuf' @ drop 30 kbuf',
           rd_ptr = 20, offset = 30, total_log_size = 30, iters = 2,
           trace = [WriteHead 120, Memcpy 0 90 10, Memcpy 10 0 20], errs = []\<rparr>)))"
proof (intro conjI impI)
  assume rb: "rb_size_of cfg = 1000" and l: "length sysBuf = 1000" "1000 \<le> length kbuf"
  have e: "entry_rd_ptr 1000 \<lparr>tail_offset = 50, head_offset = 10\<rparr> = 10"
    "entry_wr_ptr \<lparr>tail_offset = 50, head_offset = 10\<rparr> = 50"
    "entry_wr_ptr_wrap 1000 \<lparr>tail_offset = 50, head_offset = 10\<rparr> = 50"
    by (simp_all add: entry_rd_ptr_def entry_wr_ptr_def entry_wr_ptr_wrap_def)
  show "aie2_get_trace_event_content cfg sysBuf \<lparr>tail_offset = 50, head_offset = 10\<rparr> kbuf =
        Some (Returned (40,
          \<lparr>metadata = \<lparr>tail_offset = 50, head_offset = 50\<rparr>,
           kern_buf = take 40 (drop 10 sysBuf) @ drop 40 kbuf,
           rd_ptr = 50, offset = 40, total_log_size = 40, iters = 1,
           trace = [WriteHead 50, Memcpy 0 10 40], errs = []\<rparr>))"
    using l by (simp add: drain_unfold rb e copy_loop_nowrap)
next
  assume rb: "rb_size_of cfg' = 100" and l: "length sysBuf' = 100" "100 \<le> length kbuf'"
  have e: "entry_rd_ptr 100 \<lparr>tail_offset = 120, head_offset = 90\<rparr> = 90"
    "entry_wr_ptr \<lparr>tail_offset = 120, head_offset = 90\<rparr> = 120"
    "entry_wr_ptr_wrap 100 \<lparr>tail_offset = 120, head_offset = 90\<rparr> = 20"
    by (simp_all add: entry_rd_ptr_def entry_wr_ptr_def entry_wr_ptr_wrap_def)
  show "aie2_get_trace_event_content cfg' sysBuf' \<lparr>tail_offset = 120, head_offset = 90\<rparr> kbuf' =
        Some (Returned (30,
          \<lparr>metadata = \<lparr>tail_offset = 120, head_offset = 120\<rparr>,
           kern_buf = take 10 (drop 90 sysBuf') @ take 20 sysBuf' @ drop 30 kbuf',
           rd_ptr = 20, offset = 30, total_log_size = 30, iters = 2,
           trace = [WriteHead 120, Memcpy 0 90 10, Memcpy 10 0 20], errs = []\<rparr>))"
    using l by (simp add: drain_unfold rb e copy_loop_wrap)
qed

theorem drain_spec_vectors_witness:
  "rb_size_of cfg_1000 = 1000 \<and> length (map of_nat [0..<1000] :: u8 list) = 1000 \<and>
   1000 \<le> length (replicate 1064 0 :: u8 list) \<and>
   rb_size_of cfg_100 = 100 \<and> length (map of_nat [0..<100] :: u8 list) = 100 \<and>
   100 \<le> length (replicate 164 0 :: u8 list) \<and>
   aie2_get_trace_event_content cfg_1000 (map of_nat [0..<1000])
      \<lparr>tail_offset = 50, head_offset = 10\<rparr> (replicate 1064 0) =
     Some (Returned (40,
       \<lparr>metadata = \<lparr>tail_offset = 50, head_offset = 50\<rparr>,
        kern_buf = map of_nat [10..<50] @ replicate 1024 0,
        rd_ptr = 50, offset = 40, total_log_size = 40, iters = 1,
        trace = [WriteHead 50, Memcpy 0 10 40], errs = []\<rparr>)) \<and>
   aie2_get_trace_event_content cfg_100 (map of_nat [0..<100])
      \<lparr>tail_offset = 120, head_offset = 90\<rparr> (replicate 164 0) =
     Some (Returned (30,
       \<lparr>metadata = \<lparr>tail_offset = 120, head_offset = 120\<rparr>,
        kern_buf = map of_nat [90..<100] @ map of_nat [0..<20] @ replicate 134 0,
        rd_ptr = 20, offset = 30, total_log_size = 30, iters = 2,
        trace = [WriteHead 120, Memcpy 0 90 10, Memcpy 10 0 20], errs = []\<rparr>))"
  using drain_spec_vectors [of cfg_1000 "map of_nat [0..<1000]" "replicate 1064 0"
      cfg_100 "map of_nat [0..<100]" "replicate 164 0"]
  by (simp add: rb_size_of_def cfg_1000_def cfg_100_def take_map drop_map)


subsection \<open>Termination and iteration count of the copy loop\<close>

text \<open>
  Claim C8. For a log area of non-zero size and any \<open>head_offset\<close> and \<open>tail_offset\<close>, the
  copy loop returns, and on exit the read pointer equals the wrapped write pointer. The
  loop body is entered at most twice. It is entered twice exactly when the produced range
  wraps, that is when the wrapped write pointer is below the read pointer and not zero:
  then the first copy runs from the read pointer to the end of the log area and the
  second from offset 0 to the write pointer. In every other case the body is entered
  once: with one copy up to the write pointer, with one copy up to the end of the log area
  when the write pointer wrapped to exactly 0, or with no copy when the two pointers are
  equal. The two length hypotheses say that the log area holds \<open>rb_size\<close> bytes and that
  the destination is at least as large.
\<close>

theorem copy_loop_at_most_two_iterations:
  assumes "rb_size_of cfg \<noteq> 0"
    and "unat (rb_size_of cfg) \<le> length sysBuf"
    and "unat (rb_size_of cfg) \<le> length kbuf"
  shows "let rb = rb_size_of cfg; rd = entry_rd_ptr rb md; w = entry_wr_ptr_wrap rb md in
         \<exists>v s. aie2_get_trace_event_content cfg sysBuf md kbuf = Some (Returned (v, s)) \<and>
           rd_ptr s = w \<and> iters s \<le> 2 \<and>
           (if 0 < w \<and> w < rd
            then iters s = 2 \<and>
                 tl (trace s) = [Memcpy 0 (unat rd) (unat rb - unat rd),
                                 Memcpy (unat rb - unat rd) 0 (unat w)]
            else iters s = 1 \<and>
                 tl (trace s) =
                   (if rd = w then []
                    else if rd < w then [Memcpy 0 (unat rd) (unat w - unat rd)]
                    else [Memcpy 0 (unat rd) (unat rb - unat rd)]))"
proof -
  note c = drain_cases [OF assms, of md]
  let ?rd = "entry_rd_ptr (rb_size_of cfg) md" and ?w = "entry_wr_ptr_wrap (rb_size_of cfg) md"
  consider (equal) "?rd = ?w" | (nowrap) "?rd < ?w" | (to_end) "?w = 0" "0 < ?rd"
    | (wrap) "0 < ?w" "?w < ?rd"
    using ptr_cases [of ?rd ?w] by blast
  then show ?thesis
  proof cases
    case equal
    show ?thesis using equal by (simp add: Let_def c(1) [OF equal])
  next
    case nowrap
    then have "?rd \<noteq> ?w" "\<not> ?w < ?rd" by auto
    then show ?thesis using nowrap by (simp add: Let_def c(2) [OF nowrap])
  next
    case to_end
    then have "?rd \<noteq> 0" by auto
    then show ?thesis using to_end by (simp add: Let_def c(3) [OF to_end])
  next
    case wrap
    then have "?rd \<noteq> ?w" "\<not> ?rd < ?w" by auto
    then show ?thesis using wrap by (simp add: Let_def c(4) [OF wrap])
  qed
qed


theorem copy_loop_at_most_two_iterations_witness:
  "rb_size_of cfg_100 \<noteq> 0 \<and>
   unat (rb_size_of cfg_100) \<le> length (map of_nat [0..<100] :: u8 list) \<and>
   unat (rb_size_of cfg_100) \<le> length (replicate 164 0 :: u8 list) \<and>
   (\<exists>v s. aie2_get_trace_event_content cfg_100 (map of_nat [0..<100])
             \<lparr>tail_offset = 120, head_offset = 90\<rparr> (replicate 164 0) = Some (Returned (v, s)) \<and>
           rd_ptr s = 20 \<and> iters s = 2 \<and>
           tl (trace s) = [Memcpy 0 90 10, Memcpy 10 0 20])"
  using copy_loop_at_most_two_iterations [of cfg_100 "map of_nat [0..<100]" "replicate 164 0"
      "\<lparr>tail_offset = 120, head_offset = 90\<rparr>"]
  by (simp add: rb_size_of_def cfg_100_def entry_rd_ptr_def entry_wr_ptr_def
      entry_wr_ptr_wrap_def) blast

subsection \<open>Bounds on the segment lengths and on the returned count\<close>

text \<open>
  Claim C10. For every \<open>head_offset\<close> and \<open>tail_offset\<close>, the drain returns without
  taking the branch \<open>log_size > rb_size\<close> (no error line is written), every length handed
  to \<open>memcpy\<close> is strictly below \<open>rb_size\<close>, and the returned count, which is the sum of
  these lengths, is strictly below \<open>rb_size\<close> and so below \<open>TRACE_EVENT_BUFFER_SIZE\<close>: the
  store of the terminating zero at index \<open>log_size\<close> of \<open>g_fwLogBuf\<close> stays inside the
  array. The hypotheses are the sizes the code fixes: the metadata block is not larger
  than the buffer, the log area holds \<open>rb_size\<close> bytes, and \<open>g_fwLogBuf\<close> has
  \<open>TRACE_EVENT_BUFFER_SIZE\<close> bytes.
\<close>

theorem segment_lengths_below_rb_size:
  assumes nz: "rb_size_of cfg \<noteq> 0"
    and le: "TRACE_EVENT_BUFFER_METADATA_SIZE cfg \<le> TRACE_EVENT_BUFFER_SIZE cfg"
    and ls: "unat (rb_size_of cfg) \<le> length sysBuf"
    and lk: "length kbuf = unat (TRACE_EVENT_BUFFER_SIZE cfg)"
  shows "\<exists>v s. aie2_get_trace_event_content cfg sysBuf md kbuf = Some (Returned (v, s)) \<and>
           errs s = [] \<and>
           (\<forall>ev \<in> set (trace s). memcpy_len ev < unat (rb_size_of cfg)) \<and>
           unat v = sum_list (map memcpy_len (trace s)) \<and>
           v < rb_size_of cfg \<and>
           unat v < unat (TRACE_EVENT_BUFFER_SIZE cfg) \<and>
           null_terminate (kern_buf s) v \<noteq> None"
proof -
  have "unat (rb_size_of cfg) =
          unat (TRACE_EVENT_BUFFER_SIZE cfg) - unat (TRACE_EVENT_BUFFER_METADATA_SIZE cfg)"
    unfolding rb_size_of_def using le by (rule unat_sub)
  then have rbB: "unat (rb_size_of cfg) \<le> unat (TRACE_EVENT_BUFFER_SIZE cfg)" by simp
  then have lk': "unat (rb_size_of cfg) \<le> length kbuf" using lk by simp
  from drain_summary [OF nz ls lk', of md] obtain v s where
    r: "aie2_get_trace_event_content cfg sysBuf md kbuf = Some (Returned (v, s))"
    and e: "errs s = []" and l: "length (kern_buf s) = length kbuf"
    and m: "\<forall>ev \<in> set (trace s). memcpy_len ev < unat (rb_size_of cfg)"
    and t: "unat v = sum_list (map memcpy_len (trace s))"
    and b: "unat v < unat (rb_size_of cfg)"
    by blast
  have "v < rb_size_of cfg" using b by (simp add: word_less_nat_alt)
  moreover have "unat v < unat (TRACE_EVENT_BUFFER_SIZE cfg)" using b rbB by simp
  moreover have "null_terminate (kern_buf s) v \<noteq> None"
    using b rbB l lk by (simp add: null_terminate_def)
  ultimately show ?thesis using r e m t by blast
qed

theorem segment_lengths_below_rb_size_witness:
  "rb_size_of cfg_100 \<noteq> 0 \<and>
   TRACE_EVENT_BUFFER_METADATA_SIZE cfg_100 \<le> TRACE_EVENT_BUFFER_SIZE cfg_100 \<and>
   unat (rb_size_of cfg_100) \<le> length (map of_nat [0..<100] :: u8 list) \<and>
   length (replicate 164 0 :: u8 list) = unat (TRACE_EVENT_BUFFER_SIZE cfg_100) \<and>
   (\<exists>v s. aie2_get_trace_event_content cfg_100 (map of_nat [0..<100])
             \<lparr>tail_offset = 120, head_offset = 90\<rparr> (replicate 164 0) = Some (Returned (v, s)) \<and>
           errs s = [] \<and>
           (\<forall>ev \<in> set (trace s). memcpy_len ev < unat (rb_size_of cfg_100)) \<and>
           unat v = sum_list (map memcpy_len (trace s)) \<and>
           v < rb_size_of cfg_100 \<and>
           unat v < unat (TRACE_EVENT_BUFFER_SIZE cfg_100) \<and>
           null_terminate (kern_buf s) v \<noteq> None)"
proof -
  have h1: "rb_size_of cfg_100 \<noteq> 0" by (simp add: rb_size_of_def cfg_100_def)
  have h2: "TRACE_EVENT_BUFFER_METADATA_SIZE cfg_100 \<le> TRACE_EVENT_BUFFER_SIZE cfg_100"
    by (simp add: cfg_100_def)
  have h3: "unat (rb_size_of cfg_100) \<le> length (map of_nat [0..<100] :: u8 list)"
    by (simp add: rb_size_of_def cfg_100_def)
  have h4: "length (replicate 164 0 :: u8 list) = unat (TRACE_EVENT_BUFFER_SIZE cfg_100)"
    by (simp add: cfg_100_def)
  show ?thesis
    using h1 h2 h3 h4
      segment_lengths_below_rb_size [OF h1 h2 h3 h4, of "\<lparr>tail_offset = 120, head_offset = 90\<rparr>"]
    by blast
qed

subsection \<open>The value stored into \<open>head_offset\<close>\<close>

text \<open>
  What the drain does store: the low 32 bits of the tail counter, as the first event of
  the trace. It is the tail counter itself as long as that is below \<open>2^32\<close>.
\<close>

lemma ucast_down_up_id:
  fixes x :: u64
  assumes "x < 4294967296"
  shows "ucast (ucast x :: u32) = x"
proof -
  have "unat x < 4294967296" using assms by (simp add: word_less_nat_alt)
  then show ?thesis by (simp add: word_unat_eq_iff unat_ucast_up unat_ucast_down)
qed

lemma drain_publishes_head_first:
  assumes "rb_size_of cfg \<noteq> 0"
    and "unat (rb_size_of cfg) \<le> length sysBuf"
    and "unat (rb_size_of cfg) \<le> length kbuf"
  shows "\<exists>v s. aie2_get_trace_event_content cfg sysBuf md kbuf = Some (Returned (v, s)) \<and>
           head_offset (metadata s) = ucast (entry_wr_ptr md) \<and>
           unat (head_offset (metadata s)) = unat (tail_offset md) mod 4294967296 \<and>
           (tail_offset md < 4294967296 \<longrightarrow> head_offset (metadata s) = tail_offset md) \<and>
           hd (trace s) = WriteHead (head_offset (metadata s)) \<and>
           (\<forall>ev \<in> set (tl (trace s)). \<exists>d so n. ev = Memcpy d so n)"
proof -
  note c = drain_cases [OF assms, of md]
  let ?rd = "entry_rd_ptr (rb_size_of cfg) md" and ?w = "entry_wr_ptr_wrap (rb_size_of cfg) md"
  have u: "unat (ucast (entry_wr_ptr md) :: u64) = unat (tail_offset md) mod 4294967296"
    by (simp add: entry_wr_ptr_def unat_ucast_up unat_ucast_down)
  have i: "tail_offset md < 4294967296 \<longrightarrow> (ucast (entry_wr_ptr md) :: u64) = tail_offset md"
    by (simp add: entry_wr_ptr_def ucast_down_up_id)
  consider (equal) "?rd = ?w" | (nowrap) "?rd < ?w" | (to_end) "?w = 0" "0 < ?rd"
    | (wrap) "0 < ?w" "?w < ?rd"
    using ptr_cases [of ?rd ?w] by blast
  then show ?thesis
  proof cases
    case equal
    show ?thesis using u i by (simp add: c(1) [OF equal])
  next
    case nowrap
    show ?thesis using u i by (simp add: c(2) [OF nowrap])
  next
    case to_end
    show ?thesis using u i by (simp add: c(3) [OF to_end])
  next
    case wrap
    show ?thesis using u i by (simp add: c(4) [OF wrap])
  qed
qed

text \<open>
  Claim C2, evaluated at a tail counter of \<open>2^32 + 5\<close> with a log area of 1000 bytes.
  The conversion of line 119 keeps the low 32 bits, so \<open>head_offset\<close> becomes 5 and not
  4294967301. The store is the first event of the trace, before the copy. The copy reads
  offsets 0 to 5 of the log area, while a producer that wraps the 64-bit counter writes
  at \<open>4294967301 mod 1000 = 301\<close>.
\<close>

theorem drain_head_offset_truncated:
  "aie2_get_trace_event_content cfg_1000 (map of_nat [0..<1000])
      \<lparr>tail_offset = 4294967301, head_offset = 0\<rparr> (replicate 1064 0) =
     Some (Returned (5,
       \<lparr>metadata = \<lparr>tail_offset = 4294967301, head_offset = 5\<rparr>,
        kern_buf = map of_nat [0..<5] @ replicate 1059 0,
        rd_ptr = 5, offset = 5, total_log_size = 5, iters = 1,
        trace = [WriteHead 5, Memcpy 0 0 5], errs = []\<rparr>)) \<and>
   entry_wr_ptr_wrap (rb_size_of cfg_1000) \<lparr>tail_offset = 4294967301, head_offset = 0\<rparr> = 5 \<and>
   unat (tail_offset \<lparr>tail_offset = 4294967301, head_offset = 0\<rparr>) mod
     unat (rb_size_of cfg_1000) = 301"
proof -
  have rb: "rb_size_of cfg_1000 = 1000" by (simp add: rb_size_of_def cfg_1000_def)
  have e: "entry_rd_ptr 1000 \<lparr>tail_offset = 4294967301, head_offset = 0\<rparr> = 0"
    "entry_wr_ptr \<lparr>tail_offset = 4294967301, head_offset = 0\<rparr> = 5"
    "entry_wr_ptr_wrap 1000 \<lparr>tail_offset = 4294967301, head_offset = 0\<rparr> = 5"
    by (simp_all add: entry_rd_ptr_def entry_wr_ptr_def entry_wr_ptr_wrap_def)
  show ?thesis
    by (simp add: drain_unfold rb e copy_loop_nowrap take_map)
qed

section \<open>Properties of the decoder\<close>




lemma decode_loop_returns:
  assumes "0 < stride"
  shows "\<exists>y. decode_loop stride view rb g str end_ptr out = Some y"
proof (induction "end_ptr - str" arbitrary: str out rule: less_induct)
  case less
  show ?case
  proof (cases "str < end_ptr \<and> str + 16 \<le> length g")
    case False
    then show ?thesis by (subst decode_loop.simps) auto
  next
    case True
    then have "end_ptr - (str + stride) < end_ptr - str" using assms by linarith
    from less [OF this] obtain y where
      "decode_loop stride view rb g (str + stride) end_ptr
         (out @ [trace_event_line rb (view (take 16 (drop str g)))]) = Some y"
      by blast
    then show ?thesis using True by (subst decode_loop.simps) simp
  qed
qed






section \<open>Properties of the state machine and of the session lifecycle\<close>

subsection \<open>The three ways through \<open>aie2_assign_event_trace_state\<close>\<close>

lemma supported_iff:
  "fst (aie2_is_event_trace_supported_on_dev ndev) \<longleftrightarrow>
     (\<exists>p. pdev ndev = Some p \<and> device p = 0x17f0 \<and> revision p \<ge> 0x10)"
  by (simp add: aie2_is_event_trace_supported_on_dev_def split: option.splits)

lemma supported_frame:
  "snd (aie2_is_event_trace_supported_on_dev ndev)\<lparr>klog := l\<rparr> = ndev\<lparr>klog := l\<rparr>"
  by (simp add: aie2_is_event_trace_supported_on_dev_def xdna_log_def split: option.splits)

lemma assign_unsupported:
  "\<not> fst (aie2_is_event_trace_supported_on_dev ndev) \<Longrightarrow>
     aie2_assign_event_trace_state cfg e ndev state =
       (Void, xdna_log (ERR ''Event trace is not supported on this device'')
                (snd (aie2_is_event_trace_supported_on_dev ndev)))"
  by (simp add: aie2_assign_event_trace_state_def case_prod_beta)

lemma supported_snd:
  "snd (aie2_is_event_trace_supported_on_dev ndev) =
     ndev\<lparr>klog := klog (snd (aie2_is_event_trace_supported_on_dev ndev))\<rparr>"
  by (simp add: aie2_is_event_trace_supported_on_dev_def xdna_log_def split: option.splits)

lemma supported_snd_eq:
  "snd (aie2_is_event_trace_supported_on_dev ndev) =
     xdna_log (case pdev ndev of None \<Rightarrow> ERR ''pdev is null''
               | Some p \<Rightarrow> DBG (''Dev id: 0x%x, Dev rev: 0x%x'' @ [CHR 0x0A])) ndev"
  by (simp add: aie2_is_event_trace_supported_on_dev_def split: option.splits)

lemma assign_same_state:
  "fst (aie2_is_event_trace_supported_on_dev ndev) \<Longrightarrow> event_trace_enabled ndev = state \<Longrightarrow>
     aie2_assign_event_trace_state cfg e ndev state =
       (Void, xdna_log (DBG ''Event trace state is already %d'')
                (snd (aie2_is_event_trace_supported_on_dev ndev)))"
  by (simp add: aie2_assign_event_trace_state_def case_prod_beta supported_snd_eq xdna_log_def)

lemma assign_transition:
  "fst (aie2_is_event_trace_supported_on_dev ndev) \<Longrightarrow> event_trace_enabled ndev \<noteq> state \<Longrightarrow>
     aie2_assign_event_trace_state cfg e ndev state =
       (let n1 = (snd (aie2_is_event_trace_supported_on_dev ndev))\<lparr>event_trace_enabled := state\<rparr>;
            n2 = (if state \<noteq> 0 then
                    (case aie2_start_event_trace_send cfg e n1 of
                       (ret, n) \<Rightarrow>
                         if ret \<noteq> 0 then
                           aie2_event_trace_free
                             (xdna_log (ERR ''Send start event trace failed, ret %d'') n)
                         else n)
                  else if dev_status n1 \<ge> AIE2_DEV_START cfg then
                    aie2_event_trace_free (snd (aie2_stop_event_trace_send e n1))
                  else xdna_log (DBG ''Event trace is not started'') n1)
        in (Void, xdna_log (DBG ''Event trace state: %d'') (clear_event_trace_msix n2)))"
  by (simp add: aie2_assign_event_trace_state_def case_prod_beta supported_snd_eq xdna_log_def
      Let_def)

lemma mmio_xdna_log [simp]: "mmio (xdna_log l n) = mmio n"
  by (simp add: xdna_log_def)

lemma mmio_supported [simp]: "mmio (snd (aie2_is_event_trace_supported_on_dev n)) = mmio n"
  by (simp add: supported_snd_eq)

lemma mmio_alloc [simp]: "mmio (snd (aie2_event_trace_alloc cfg e n)) = mmio n"
  by (simp add: aie2_event_trace_alloc_def Let_def xdna_log_def split: option.splits)

lemma mmio_free [simp]: "mmio (aie2_event_trace_free n) = mmio n"
  by (simp add: aie2_event_trace_free_def split: option.splits)

lemma mmio_start_event_trace [simp]: "mmio (snd (aie2_start_event_trace e n a sz)) = mmio n"
  by (simp add: aie2_start_event_trace_def aie2_set_trace_timestamp_def Let_def
      split: option.splits)

lemma mmio_start_send [simp]: "mmio (snd (aie2_start_event_trace_send cfg e n)) = mmio n"
proof -
  have "mmio (snd (aie2_start_event_trace_send cfg e n)) =
          mmio (snd (aie2_event_trace_alloc cfg e n))"
    by (simp add: aie2_start_event_trace_send_def case_prod_beta split: option.splits)
  then show ?thesis by simp
qed

lemma mmio_stop_send [simp]: "mmio (snd (aie2_stop_event_trace_send e n)) = mmio n"
  by (simp add: aie2_stop_event_trace_send_def aie2_stop_event_trace_def)

lemma alloc_ok:
  assumes "kzalloc_ok e" and "dma_alloc e = Some (addr, region)" and "request_irq e = 0"
  shows "aie2_event_trace_alloc cfg e n =
     (0, n\<lparr>kmem_live := Suc (kmem_live n),
           dma_live := addr # dma_live n,
           event_trace_req :=
             Some \<lparr>trace_req = \<lparr>dram_buffer_address = addr,
                                 dram_buffer_size = TRACE_EVENT_BUFFER_SIZE cfg\<rparr>,
                   buf = region, log_ch_irq = pci_irq_vector e,
                   resp_timestamp = 0, sys_start_time = 0\<rparr>,
           irq_live := pci_irq_vector e # irq_live n,
           klog := klog n @ [DBG ''Start event trace buf addr: 0x%llx size 0x%x'']\<rparr>)"
  using assms by (simp add: aie2_event_trace_alloc_def Let_def xdna_log_def)

lemma start_send_fails:
  assumes "kzalloc_ok e" and "dma_alloc e = Some (addr, region)" and "request_irq e = 0"
    and "start_ret e \<noteq> 0"
  shows "aie2_start_event_trace_send cfg e n =
     (start_ret e,
      n\<lparr>kmem_live := Suc (kmem_live n),
        dma_live := addr # dma_live n,
        event_trace_req :=
          Some \<lparr>trace_req = \<lparr>dram_buffer_address = addr,
                              dram_buffer_size = TRACE_EVENT_BUFFER_SIZE cfg\<rparr>,
                buf = region, log_ch_irq = pci_irq_vector e,
                resp_timestamp = 0, sys_start_time = 0\<rparr>,
        irq_live := pci_irq_vector e # irq_live n,
        klog := klog n @ [DBG ''Start event trace buf addr: 0x%llx size 0x%x''],
        fw_msgs := fw_msgs n @ [START_EVENT_TRACE addr (TRACE_EVENT_BUFFER_SIZE cfg)]\<rparr>)"
  using assms(4)
  by (simp add: aie2_start_event_trace_send_def alloc_ok [OF assms(1-3)]
      aie2_start_event_trace_def Let_def)

lemma assign_start_fails:
  assumes sup: "fst (aie2_is_event_trace_supported_on_dev ndev)"
    and ne: "event_trace_enabled ndev \<noteq> state" and en: "state \<noteq> 0"
    and env: "kzalloc_ok e" "dma_alloc e = Some (addr, region)" "request_irq e = 0"
      "start_ret e \<noteq> 0"
  shows "aie2_assign_event_trace_state cfg e ndev state =
     (Void,
      ndev\<lparr>event_trace_enabled := state,
           event_trace_req := None,
           fw_msgs := fw_msgs ndev @ [START_EVENT_TRACE addr (TRACE_EVENT_BUFFER_SIZE cfg)],
           mmio := mmio ndev @ [(LOG_BUF_MB_IOHUB_PTR, 0)],
           klog := klog ndev @
             [DBG (''Dev id: 0x%x, Dev rev: 0x%x'' @ [CHR 0x0A]),
              DBG ''Start event trace buf addr: 0x%llx size 0x%x'',
              ERR ''Send start event trace failed, ret %d'',
              DBG ''Event trace state: %d'']\<rparr>)"
proof -
  from sup obtain p where p: "pdev ndev = Some p"
    by (auto simp: supported_iff)
  show ?thesis
    using en env(4)
    by (simp add: assign_transition [OF sup ne] Let_def start_send_fails [OF env]
        supported_snd_eq p xdna_log_def aie2_event_trace_free_def clear_event_trace_msix_def)
qed


lemma start_send_ok:
  assumes "kzalloc_ok e" and "dma_alloc e = Some (addr, region)" and "request_irq e = 0"
    and "start_ret e = 0"
  shows "aie2_start_event_trace_send cfg e n =
     (0,
      n\<lparr>kmem_live := Suc (kmem_live n),
        dma_live := addr # dma_live n,
        event_trace_req :=
          Some \<lparr>trace_req = \<lparr>dram_buffer_address = addr,
                              dram_buffer_size = TRACE_EVENT_BUFFER_SIZE cfg\<rparr>,
                buf = region, log_ch_irq = pci_irq_vector e,
                resp_timestamp = current_timestamp e,
                sys_start_time = ktime_get_ns e div 1000\<rparr>,
        irq_live := pci_irq_vector e # irq_live n,
        klog := klog n @ [DBG ''Start event trace buf addr: 0x%llx size 0x%x''],
        fw_msgs := fw_msgs n @ [START_EVENT_TRACE addr (TRACE_EVENT_BUFFER_SIZE cfg)]\<rparr>)"
  using assms(4)
  by (simp add: aie2_start_event_trace_send_def alloc_ok [OF assms(1-3)]
      aie2_start_event_trace_def aie2_set_trace_timestamp_def Let_def)

lemma assign_start_ok:
  assumes sup: "fst (aie2_is_event_trace_supported_on_dev ndev)"
    and ne: "event_trace_enabled ndev \<noteq> state" and en: "state \<noteq> 0"
    and env: "kzalloc_ok e" "dma_alloc e = Some (addr, region)" "request_irq e = 0"
      "start_ret e = 0"
  shows "event_trace_req (snd (aie2_assign_event_trace_state cfg e ndev state)) =
           Some \<lparr>trace_req = \<lparr>dram_buffer_address = addr,
                               dram_buffer_size = TRACE_EVENT_BUFFER_SIZE cfg\<rparr>,
                 buf = region, log_ch_irq = pci_irq_vector e,
                 resp_timestamp = current_timestamp e,
                 sys_start_time = ktime_get_ns e div 1000\<rparr>"
    and "fw_msgs (snd (aie2_assign_event_trace_state cfg e ndev state)) =
           fw_msgs ndev @ [START_EVENT_TRACE addr (TRACE_EVENT_BUFFER_SIZE cfg)]"
    and "dma_live (snd (aie2_assign_event_trace_state cfg e ndev state)) = addr # dma_live ndev"
    and "event_trace_enabled (snd (aie2_assign_event_trace_state cfg e ndev state)) = state"
  using en
  by (simp_all add: assign_transition [OF sup ne] Let_def start_send_ok [OF env]
      supported_snd_eq xdna_log_def clear_event_trace_msix_def)

lemma dev_supported_is_supported: "fst (aie2_is_event_trace_supported_on_dev dev_supported)"
  by (simp add: aie2_is_event_trace_supported_on_dev_def dev_supported_def)

lemma dev_unsupported_is_not_supported:
  "\<not> fst (aie2_is_event_trace_supported_on_dev dev_unsupported)"
  by (simp add: aie2_is_event_trace_supported_on_dev_def dev_unsupported_def dev_supported_def)

lemma event_trace_free_releases:
  "aie2_event_trace_free dev_tracing = dev_supported\<lparr>event_trace_enabled := 1\<rparr>"
  by (simp add: aie2_event_trace_free_def dev_tracing_def dev_supported_def anchor_1000_5000_def)

subsection \<open>Capability gate\<close>

text \<open>
  Claim C5. On a device for which \<open>aie2_is_event_trace_supported_on_dev\<close> answers false,
  \<open>aie2_assign_event_trace_state\<close> leaves every part of the state but the kernel log as
  it was, whatever the requested state and the flag: the flag keeps its value, the
  session pointer is unchanged, and no message goes to the firmware.
\<close>

theorem capability_gate_blocks_transition:
  assumes "\<not> fst (aie2_is_event_trace_supported_on_dev ndev)"
  shows "(pdev ndev = None \<or>
          (\<exists>p. pdev ndev = Some p \<and> (device p \<noteq> 0x17f0 \<or> revision p < 0x10))) \<and>
         (snd (aie2_assign_event_trace_state cfg e ndev state))\<lparr>klog := klog ndev\<rparr> = ndev \<and>
         event_trace_enabled (snd (aie2_assign_event_trace_state cfg e ndev state)) =
           event_trace_enabled ndev \<and>
         event_trace_req (snd (aie2_assign_event_trace_state cfg e ndev state)) =
           event_trace_req ndev \<and>
         fw_msgs (snd (aie2_assign_event_trace_state cfg e ndev state)) = fw_msgs ndev"
proof -
  have id: "pdev ndev = None \<or>
          (\<exists>p. pdev ndev = Some p \<and> (device p \<noteq> 0x17f0 \<or> revision p < 0x10))"
    using assms by (cases "pdev ndev") (auto simp: supported_iff)
  have "snd (aie2_assign_event_trace_state cfg e ndev state) =
          xdna_log (ERR ''Event trace is not supported on this device'')
            (snd (aie2_is_event_trace_supported_on_dev ndev))"
    by (simp add: assign_unsupported [OF assms])
  then show ?thesis
    using id by (subst (asm) supported_snd) (simp add: xdna_log_def)
qed

theorem capability_gate_blocks_transition_witness:
  "\<not> fst (aie2_is_event_trace_supported_on_dev dev_unsupported) \<and>
   pdev dev_unsupported = Some \<lparr>device = 0x17f0, revision = 0x0f\<rparr> \<and>
   (snd (aie2_assign_event_trace_state cfg_100 env_start_ok dev_unsupported 1))\<lparr>klog := []\<rparr>
     = dev_unsupported \<and>
   event_trace_enabled (snd (aie2_assign_event_trace_state cfg_100 env_start_ok dev_unsupported 1))
     = 0 \<and>
   event_trace_req (snd (aie2_assign_event_trace_state cfg_100 env_start_ok dev_unsupported 1))
     = None \<and>
   fw_msgs (snd (aie2_assign_event_trace_state cfg_100 env_start_ok dev_unsupported 1)) = []"
  using capability_gate_blocks_transition [OF dev_unsupported_is_not_supported,
      of cfg_100 env_start_ok 1] dev_unsupported_is_not_supported
  by (simp add: dev_unsupported_def dev_supported_def)

subsection \<open>Teardown\<close>

text \<open>
  Claim C7. Without an active session \<open>aie2_event_trace_free\<close> changes nothing; after any
  call the session pointer is null; and a second call in succession leaves the state of
  the first.
\<close>

theorem event_trace_free_idempotent:
  "(event_trace_req ndev = None \<longrightarrow> aie2_event_trace_free ndev = ndev) \<and>
   event_trace_req (aie2_event_trace_free ndev) = None \<and>
   aie2_event_trace_free (aie2_event_trace_free ndev) = aie2_event_trace_free ndev"
  by (simp add: aie2_event_trace_free_def split: option.splits)


theorem event_trace_free_idempotent_witness:
  "event_trace_req dev_supported = None \<and>
   aie2_event_trace_free dev_supported = dev_supported \<and>
   event_trace_req (aie2_event_trace_free dev_tracing) = None \<and>
   aie2_event_trace_free (aie2_event_trace_free dev_tracing) = aie2_event_trace_free dev_tracing"
  using event_trace_free_idempotent [of dev_supported] event_trace_free_idempotent [of dev_tracing]
  by (simp add: dev_supported_def)

subsection \<open>The interrupt-pending register\<close>

text \<open>
  Claim C4, as amended. A call that performs a transition, that is on a supported device
  and with a requested state different from the flag, writes 0 to the log-buffer
  interrupt register exactly once. A call that returns at the capability gate or at the
  already-in-state test writes no register.
\<close>

theorem msix_cleared_on_transition_only:
  "mmio (snd (aie2_assign_event_trace_state cfg e ndev state)) =
     (if fst (aie2_is_event_trace_supported_on_dev ndev) \<and> event_trace_enabled ndev \<noteq> state
      then mmio ndev @ [(LOG_BUF_MB_IOHUB_PTR, 0)]
      else mmio ndev)"
proof (cases "fst (aie2_is_event_trace_supported_on_dev ndev)")
  case False
  then show ?thesis by (simp add: assign_unsupported)
next
  case sup: True
  show ?thesis
  proof (cases "event_trace_enabled ndev = state")
    case True
    then show ?thesis using sup by (simp add: assign_same_state)
  next
    case False
    then show ?thesis using sup
      by (simp add: assign_transition clear_event_trace_msix_def Let_def case_prod_beta)
  qed
qed


theorem msix_cleared_on_transition_only_witness:
  "fst (aie2_is_event_trace_supported_on_dev dev_supported) \<and>
   event_trace_enabled dev_supported \<noteq> 1 \<and>
   mmio (snd (aie2_assign_event_trace_state cfg_100 env_start_ok dev_supported 1)) =
     [(LOG_BUF_MB_IOHUB_PTR, 0)] \<and>
   mmio (snd (aie2_assign_event_trace_state cfg_100 env_start_ok dev_supported 0)) = []"
  using msix_cleared_on_transition_only [of cfg_100 env_start_ok dev_supported 1]
    msix_cleared_on_transition_only [of cfg_100 env_start_ok dev_supported 0]
    dev_supported_is_supported
  by (simp add: dev_supported_def)

text \<open>
  Claim C4 as stated fails on the two early returns: a request for the state the flag
  already has, and any request on an unsupported device, leave the register unwritten.
\<close>

theorem msix_not_cleared_on_early_return:
  "(LOG_BUF_MB_IOHUB_PTR, 0) \<notin>
     set (mmio (snd (aie2_assign_event_trace_state cfg_100 env_start_ok dev_supported 0))) \<and>
   (LOG_BUF_MB_IOHUB_PTR, 0) \<notin>
     set (mmio (snd (aie2_assign_event_trace_state cfg_100 env_start_ok dev_unsupported 1)))"
proof -
  have "event_trace_enabled dev_supported = 0" by (simp add: dev_supported_def)
  then have "mmio (snd (aie2_assign_event_trace_state cfg_100 env_start_ok dev_supported 0)) =
          mmio dev_supported"
    by (simp add: assign_same_state [OF dev_supported_is_supported])
  moreover have
    "mmio (snd (aie2_assign_event_trace_state cfg_100 env_start_ok dev_unsupported 1)) =
       mmio dev_unsupported"
    by (simp add: assign_unsupported [OF dev_unsupported_is_not_supported])
  ultimately show ?thesis by (simp add: dev_unsupported_def dev_supported_def)
qed

subsection \<open>Failed start\<close>

text \<open>
  Claim C3, as amended. When the session is allocated and the firmware start message
  fails, \<open>aie2_start_event_trace_send\<close> hands the failure status back to the state
  machine with the session still allocated. \<open>aie2_assign_event_trace_state\<close> then
  releases it: the device-accessible buffer, the interrupt line and the control structure
  are back to what was live before the call, and the session pointer is null. It writes
  the error line \<open>Send start event trace failed\<close> to the kernel log. The function is
  declared void and hands nothing back to its caller.
\<close>

theorem failed_start_releases_session:
  assumes sup: "fst (aie2_is_event_trace_supported_on_dev ndev)"
    and ne: "event_trace_enabled ndev \<noteq> state" and en: "state \<noteq> 0"
    and env: "kzalloc_ok e" "dma_alloc e = Some (addr, region)" "request_irq e = 0"
      "start_ret e \<noteq> 0"
  shows "let n1 = (snd (aie2_is_event_trace_supported_on_dev ndev))\<lparr>event_trace_enabled := state\<rparr>;
             sent = aie2_start_event_trace_send cfg e n1;
             res = aie2_assign_event_trace_state cfg e ndev state
         in fst sent = start_ret e \<and> returns_failure (Status (fst sent)) \<and>
            event_trace_req (snd sent) \<noteq> None \<and>
            dma_live (snd sent) = addr # dma_live ndev \<and>
            irq_live (snd sent) = pci_irq_vector e # irq_live ndev \<and>
            kmem_live (snd sent) = Suc (kmem_live ndev) \<and>
            fst res = Void \<and>
            event_trace_req (snd res) = None \<and>
            dma_live (snd res) = dma_live ndev \<and>
            irq_live (snd res) = irq_live ndev \<and>
            kmem_live (snd res) = kmem_live ndev \<and>
            fw_msgs (snd res) =
              fw_msgs ndev @ [START_EVENT_TRACE addr (TRACE_EVENT_BUFFER_SIZE cfg)] \<and>
            klog (snd res) =
              klog ndev @
                [DBG (''Dev id: 0x%x, Dev rev: 0x%x'' @ [CHR 0x0A]),
                 DBG ''Start event trace buf addr: 0x%llx size 0x%x'',
                 ERR ''Send start event trace failed, ret %d'',
                 DBG ''Event trace state: %d'']"
  using env(4)
  by (simp add: Let_def start_send_fails [OF env] assign_start_fails [OF sup ne en env]
      returns_failure_def supported_snd_eq xdna_log_def)

theorem failed_start_releases_session_witness:
  "fst (aie2_is_event_trace_supported_on_dev dev_supported) \<and>
   event_trace_enabled dev_supported \<noteq> 1 \<and> (1::u32) \<noteq> 0 \<and>
   kzalloc_ok env_start_fails \<and> request_irq env_start_fails = 0 \<and>
   start_ret env_start_fails \<noteq> 0 \<and>
   fst (aie2_assign_event_trace_state cfg_100 env_start_fails dev_supported 1) = Void \<and>
   event_trace_req (snd (aie2_assign_event_trace_state cfg_100 env_start_fails dev_supported 1))
     = None \<and>
   dma_live (snd (aie2_assign_event_trace_state cfg_100 env_start_fails dev_supported 1)) = [] \<and>
   irq_live (snd (aie2_assign_event_trace_state cfg_100 env_start_fails dev_supported 1)) = [] \<and>
   kmem_live (snd (aie2_assign_event_trace_state cfg_100 env_start_fails dev_supported 1)) = 0 \<and>
   fw_msgs (snd (aie2_assign_event_trace_state cfg_100 env_start_fails dev_supported 1)) =
     [START_EVENT_TRACE 0x1000 164] \<and>
   klog (snd (aie2_assign_event_trace_state cfg_100 env_start_fails dev_supported 1)) =
     [DBG (''Dev id: 0x%x, Dev rev: 0x%x'' @ [CHR 0x0A]),
      DBG ''Start event trace buf addr: 0x%llx size 0x%x'',
      ERR ''Send start event trace failed, ret %d'',
      DBG ''Event trace state: %d'']"
proof -
  have sup: "fst (aie2_is_event_trace_supported_on_dev dev_supported)"
    by (simp add: aie2_is_event_trace_supported_on_dev_def dev_supported_def)
  have ne: "event_trace_enabled dev_supported \<noteq> 1" by (simp add: dev_supported_def)
  have env: "kzalloc_ok env_start_fails"
    "dma_alloc env_start_fails =
       Some (0x1000, \<lparr>log_area = replicate 100 0,
                       trace_metadata = \<lparr>tail_offset = 0, head_offset = 0\<rparr>\<rparr>)"
    "request_irq env_start_fails = 0" "start_ret env_start_fails \<noteq> 0"
    by (simp_all add: env_start_fails_def)
  have en: "(1::u32) \<noteq> 0" by simp
  show ?thesis
    using failed_start_releases_session [OF sup ne en env, of cfg_100] sup ne env
    by (simp add: Let_def dev_supported_def cfg_100_def)
qed


text \<open>
  Claim C3 as stated fails on its last part: at the concrete failed start the enable call
  reports no failure.
\<close>

theorem failed_start_returns_no_status:
  "kzalloc_ok env_start_fails \<and> dma_alloc env_start_fails \<noteq> None \<and>
   request_irq env_start_fails = 0 \<and> start_ret env_start_fails \<noteq> 0 \<and>
   \<not> returns_failure
       (fst (aie2_assign_event_trace_state cfg_100 env_start_fails dev_supported 1))"
proof -
  have sup: "fst (aie2_is_event_trace_supported_on_dev dev_supported)"
    by (simp add: aie2_is_event_trace_supported_on_dev_def dev_supported_def)
  have ne: "event_trace_enabled dev_supported \<noteq> 1" by (simp add: dev_supported_def)
  have env: "kzalloc_ok env_start_fails"
    "dma_alloc env_start_fails =
       Some (0x1000, \<lparr>log_area = replicate 100 0,
                       trace_metadata = \<lparr>tail_offset = 0, head_offset = 0\<rparr>\<rparr>)"
    "request_irq env_start_fails = 0" "start_ret env_start_fails \<noteq> 0"
    by (simp_all add: env_start_fails_def)
  have en: "(1::u32) \<noteq> 0" by simp
  show ?thesis
    using env by (simp add: assign_start_fails [OF sup ne en env] returns_failure_def)
qed


text \<open>
  Claim C9, as amended. After an enable transition whose firmware start message fails,
  the flag holds the requested state value although the session was freed: the
  device-accessible buffer, the interrupt line and the control structure that are live
  are those that were live before the call, the session pointer is null, and the one
  start message went to the firmware. A further request for the same state value,
  whatever the kernel and the firmware would answer, is treated as already in state: it
  changes nothing but the kernel log, so no session is started, nothing is allocated and
  no message is sent.
\<close>

theorem failed_start_leaves_flag_enabled:
  assumes sup: "fst (aie2_is_event_trace_supported_on_dev ndev)"
    and ne: "event_trace_enabled ndev \<noteq> state" and en: "state \<noteq> 0"
    and env: "kzalloc_ok e" "dma_alloc e = Some (addr, region)" "request_irq e = 0"
      "start_ret e \<noteq> 0"
  shows "let ndev' = snd (aie2_assign_event_trace_state cfg e ndev state) in
           event_trace_enabled ndev' = state \<and> event_trace_req ndev' = None \<and>
           dma_live ndev' = dma_live ndev \<and> irq_live ndev' = irq_live ndev \<and>
           kmem_live ndev' = kmem_live ndev \<and>
           fw_msgs ndev' =
             fw_msgs ndev @ [START_EVENT_TRACE addr (TRACE_EVENT_BUFFER_SIZE cfg)] \<and>
           (\<forall>e'. let ndev'' = snd (aie2_assign_event_trace_state cfg e' ndev' state) in
                   ndev''\<lparr>klog := klog ndev'\<rparr> = ndev' \<and>
                   event_trace_req ndev'' = None \<and>
                   fw_msgs ndev'' = fw_msgs ndev' \<and>
                   dma_live ndev'' = dma_live ndev' \<and>
                   irq_live ndev'' = irq_live ndev' \<and>
                   kmem_live ndev'' = kmem_live ndev')"
proof -
  let ?n = "snd (aie2_assign_event_trace_state cfg e ndev state)"
  note r = assign_start_fails [OF sup ne en env, of cfg]
  have f: "event_trace_enabled ?n = state" "event_trace_req ?n = None" "pdev ?n = pdev ndev"
    by (simp_all add: r)
  have sup': "fst (aie2_is_event_trace_supported_on_dev ?n)"
    using sup by (simp add: supported_iff f)
  have again: "aie2_assign_event_trace_state cfg e' ?n state =
       (Void, xdna_log (DBG ''Event trace state is already %d'')
                (snd (aie2_is_event_trace_supported_on_dev ?n)))" for e'
    by (rule assign_same_state [OF sup' f(1)])
  have "(snd (aie2_assign_event_trace_state cfg e' ?n state))\<lparr>klog := klog ?n\<rparr> = ?n" for e'
    unfolding again by (simp add: supported_snd_eq xdna_log_def)
  moreover have "event_trace_req (snd (aie2_assign_event_trace_state cfg e' ?n state)) = None"
    for e'
    unfolding again by (simp add: supported_snd_eq xdna_log_def f)
  moreover have "fw_msgs (snd (aie2_assign_event_trace_state cfg e' ?n state)) = fw_msgs ?n"
    for e'
    unfolding again by (simp add: supported_snd_eq xdna_log_def)
  moreover have "dma_live (snd (aie2_assign_event_trace_state cfg e' ?n state)) = dma_live ?n"
    for e'
    unfolding again by (simp add: supported_snd_eq xdna_log_def)
  moreover have "irq_live (snd (aie2_assign_event_trace_state cfg e' ?n state)) = irq_live ?n"
    for e'
    unfolding again by (simp add: supported_snd_eq xdna_log_def)
  moreover have "kmem_live (snd (aie2_assign_event_trace_state cfg e' ?n state)) = kmem_live ?n"
    for e'
    unfolding again by (simp add: supported_snd_eq xdna_log_def)
  moreover have "dma_live ?n = dma_live ndev" "irq_live ?n = irq_live ndev"
    "kmem_live ?n = kmem_live ndev"
    "fw_msgs ?n = fw_msgs ndev @ [START_EVENT_TRACE addr (TRACE_EVENT_BUFFER_SIZE cfg)]"
    by (simp_all add: r)
  ultimately show ?thesis using f by (simp add: Let_def)
qed



theorem failed_start_leaves_flag_enabled_witness:
  "fst (aie2_is_event_trace_supported_on_dev dev_supported) \<and>
   event_trace_enabled dev_supported \<noteq> 1 \<and> (1::u32) \<noteq> 0 \<and>
   kzalloc_ok env_start_fails \<and> request_irq env_start_fails = 0 \<and>
   start_ret env_start_fails \<noteq> 0 \<and>
   event_trace_enabled (snd (aie2_assign_event_trace_state cfg_100 env_start_fails dev_supported 1))
     = 1 \<and>
   event_trace_req (snd (aie2_assign_event_trace_state cfg_100 env_start_fails dev_supported 1))
     = None \<and>
   dma_live (snd (aie2_assign_event_trace_state cfg_100 env_start_fails dev_supported 1)) = [] \<and>
   irq_live (snd (aie2_assign_event_trace_state cfg_100 env_start_fails dev_supported 1)) = [] \<and>
   kmem_live (snd (aie2_assign_event_trace_state cfg_100 env_start_fails dev_supported 1)) = 0 \<and>
   fw_msgs (snd (aie2_assign_event_trace_state cfg_100 env_start_fails dev_supported 1)) =
     [START_EVENT_TRACE 0x1000 164] \<and>
   fw_msgs (snd (aie2_assign_event_trace_state cfg_100 env_start_ok
              (snd (aie2_assign_event_trace_state cfg_100 env_start_fails dev_supported 1)) 1)) =
     [START_EVENT_TRACE 0x1000 164] \<and>
   event_trace_req (snd (aie2_assign_event_trace_state cfg_100 env_start_ok
              (snd (aie2_assign_event_trace_state cfg_100 env_start_fails dev_supported 1)) 1)) =
     None \<and>
   dma_live (snd (aie2_assign_event_trace_state cfg_100 env_start_ok
              (snd (aie2_assign_event_trace_state cfg_100 env_start_fails dev_supported 1)) 1)) =
     []"
proof -
  have ne: "event_trace_enabled dev_supported \<noteq> 1" by (simp add: dev_supported_def)
  have env: "kzalloc_ok env_start_fails"
    "dma_alloc env_start_fails =
       Some (0x1000, \<lparr>log_area = replicate 100 0,
                       trace_metadata = \<lparr>tail_offset = 0, head_offset = 0\<rparr>\<rparr>)"
    "request_irq env_start_fails = 0" "start_ret env_start_fails \<noteq> 0"
    by (simp_all add: env_start_fails_def)
  have en: "(1::u32) \<noteq> 0" by simp
  note t = failed_start_leaves_flag_enabled [OF dev_supported_is_supported ne en env, of cfg_100]
  show ?thesis
    using t dev_supported_is_supported ne env
    by (simp add: Let_def dev_supported_def cfg_100_def)
qed

text \<open>
  Claim C9 as stated fails for an enable request with another non-zero value: line 54
  takes every non-zero state as enable while line 48 compares the raw values. After a
  failed enable with 1, an enable with 2 is not already in state: it sends a second
  start message and leaves a session allocated.
\<close>

theorem failed_start_then_other_enable_value_starts_session:
  "event_trace_enabled
     (snd (aie2_assign_event_trace_state cfg_100 env_start_fails dev_supported 1)) = 1 \<and>
   event_trace_req
     (snd (aie2_assign_event_trace_state cfg_100 env_start_fails dev_supported 1)) = None \<and>
   (2::u32) \<noteq> 0 \<and>
   event_trace_req
     (snd (aie2_assign_event_trace_state cfg_100 env_start_ok
        (snd (aie2_assign_event_trace_state cfg_100 env_start_fails dev_supported 1)) 2)) \<noteq> None \<and>
   fw_msgs
     (snd (aie2_assign_event_trace_state cfg_100 env_start_ok
        (snd (aie2_assign_event_trace_state cfg_100 env_start_fails dev_supported 1)) 2)) =
     [START_EVENT_TRACE 0x1000 164, START_EVENT_TRACE 0x1000 164] \<and>
   dma_live
     (snd (aie2_assign_event_trace_state cfg_100 env_start_ok
        (snd (aie2_assign_event_trace_state cfg_100 env_start_fails dev_supported 1)) 2)) =
     [0x1000]"
proof -
  let ?n = "snd (aie2_assign_event_trace_state cfg_100 env_start_fails dev_supported 1)"
  have ne: "event_trace_enabled dev_supported \<noteq> 1" by (simp add: dev_supported_def)
  have env: "kzalloc_ok env_start_fails"
    "dma_alloc env_start_fails =
       Some (0x1000, \<lparr>log_area = replicate 100 0,
                       trace_metadata = \<lparr>tail_offset = 0, head_offset = 0\<rparr>\<rparr>)"
    "request_irq env_start_fails = 0" "start_ret env_start_fails \<noteq> 0"
    by (simp_all add: env_start_fails_def)
  have en: "(1::u32) \<noteq> 0" by simp
  note r = assign_start_fails [OF dev_supported_is_supported ne en env, of cfg_100]
  have f0: "event_trace_enabled ?n = 1" "event_trace_req ?n = None"
    "pdev ?n = pdev dev_supported"
    "fw_msgs ?n = fw_msgs dev_supported @
       [START_EVENT_TRACE 0x1000 (TRACE_EVENT_BUFFER_SIZE cfg_100)]"
    "dma_live ?n = dma_live dev_supported"
    by (simp_all add: r)
  have f: "event_trace_enabled ?n = 1" "event_trace_req ?n = None"
    "pdev ?n = pdev dev_supported" "fw_msgs ?n = [START_EVENT_TRACE 0x1000 164]"
    "dma_live ?n = []"
    unfolding f0 by (simp_all add: dev_supported_def cfg_100_def)
  have sup': "fst (aie2_is_event_trace_supported_on_dev ?n)"
    using dev_supported_is_supported by (simp add: supported_iff f)
  have ne': "event_trace_enabled ?n \<noteq> 2" by (simp add: f)
  have en': "(2::u32) \<noteq> 0" by simp
  have env': "kzalloc_ok env_start_ok"
    "dma_alloc env_start_ok =
       Some (0x1000, \<lparr>log_area = replicate 100 0,
                       trace_metadata = \<lparr>tail_offset = 0, head_offset = 0\<rparr>\<rparr>)"
    "request_irq env_start_ok = 0" "start_ret env_start_ok = 0"
    by (simp_all add: env_start_ok_def env_start_fails_def)
  note ok = assign_start_ok [OF sup' ne' en' env', of cfg_100]
  have g: "event_trace_req (snd (aie2_assign_event_trace_state cfg_100 env_start_ok ?n 2)) \<noteq> None"
    "fw_msgs (snd (aie2_assign_event_trace_state cfg_100 env_start_ok ?n 2)) =
       [START_EVENT_TRACE 0x1000 164, START_EVENT_TRACE 0x1000 164]"
    "dma_live (snd (aie2_assign_event_trace_state cfg_100 env_start_ok ?n 2)) = [0x1000]"
    unfolding ok f by (simp_all add: cfg_100_def)
  show ?thesis
    using f(1,2) g by simp
qed


end
